theory Spec2Isabelle
  imports Main "HOL-Library.Word" "HOL-Library.FSet"
begin

section \<open>The SDK version interceptor (package interceptor)\<close>

text \<open>
  \<^verbatim>\<open>type sdkNameVersion struct { name string; version string }\<close>
  is the key type of the recorded set.
\<close>

datatype sdkNameVersion = sdkNameVersion (name: string) (version: string)

text \<open>
  \<^verbatim>\<open>SDKVersionInterceptor\<close>: the Go map with empty values is a finite set of keys,
  \<^verbatim>\<open>len\<close> is its cardinality. The lock has no content in a sequential run and is left out.
\<close>

record SDKVersionInterceptor =
  sdkInfoSet :: "sdkNameVersion fset"
  maxSetSize :: int

definition defaultMaxSetSize :: int where
  "defaultMaxSetSize = 100"

definition NewSDKVersionInterceptor :: SDKVersionInterceptor where
  "NewSDKVersionInterceptor = \<lparr>sdkInfoSet = {||}, maxSetSize = defaultMaxSetSize\<rparr>"

definition RecordSDKInfo :: "SDKVersionInterceptor \<Rightarrow> string \<Rightarrow> string \<Rightarrow> SDKVersionInterceptor" where
  "RecordSDKInfo vi nm ver =
     (let info = sdkNameVersion nm ver;
          overCap = (int (fcard (sdkInfoSet vi)) \<ge> maxSetSize vi);
          found = (info |\<in>| sdkInfoSet vi)
      in if \<not> overCap \<and> \<not> found
         then vi\<lparr>sdkInfoSet := finsert info (sdkInfoSet vi)\<rparr>
         else vi)"

text \<open>\<^verbatim>\<open>check.SDKInfo\<close> of go.temporal.io/version/check: the two fields the code fills.\<close>

datatype SDKInfo = SDKInfo (Name: string) (Version: string)

text \<open>
  \<^verbatim>\<open>GetAndResetSDKInfo\<close>. Go's \<^verbatim>\<open>for k := range currSet\<close> visits the keys in an
  order the language leaves open, so the order is a parameter: \<open>rng s\<close> is the sequence
  in which the keys of \<open>s\<close> are visited. The loop appends one entry per visited key.
\<close>

definition range_visits :: "('a fset \<Rightarrow> 'a list) \<Rightarrow> 'a fset \<Rightarrow> bool" where
  "range_visits rng s = (distinct (rng s) \<and> set (rng s) = fset s)"

definition GetAndResetSDKInfo ::
  "(sdkNameVersion fset \<Rightarrow> sdkNameVersion list) \<Rightarrow> SDKVersionInterceptor
     \<Rightarrow> SDKInfo list \<times> SDKVersionInterceptor" where
  "GetAndResetSDKInfo rng vi =
     (let currSet = sdkInfoSet vi;
          vi' = vi\<lparr>sdkInfoSet := {||}\<rparr>;
          sdkInfo = foldl (\<lambda>acc k. acc @ [SDKInfo (name k) (version k)]) [] (rng currSet)
      in (sdkInfo, vi'))"

text \<open>
  \<^verbatim>\<open>Intercept\<close>. \<^verbatim>\<open>headers.GetClientNameAndVersion\<close> belongs to another package and
  is a parameter; the wrapped handler is a parameter too, acting on a state \<open>'h\<close> of its
  own, so that its invocation is visible in the result. \<^verbatim>\<open>info\<close> is not used.
\<close>

definition Intercept ::
  "('ctx \<Rightarrow> string \<times> string) \<Rightarrow> SDKVersionInterceptor \<Rightarrow> 'ctx \<Rightarrow> 'req \<Rightarrow> 'info
     \<Rightarrow> ('ctx \<Rightarrow> 'req \<Rightarrow> 'h \<Rightarrow> 'res \<times> 'h) \<Rightarrow> 'h
     \<Rightarrow> 'res \<times> SDKVersionInterceptor \<times> 'h" where
  "Intercept GetClientNameAndVersion vi ctx req info handler h =
     (let (sdkName, sdkVersion) = GetClientNameAndVersion ctx;
          vi' = (if sdkName \<noteq> [] \<and> sdkVersion \<noteq> []
                 then RecordSDKInfo vi sdkName sdkVersion else vi);
          (res, h') = handler ctx req h
      in (res, vi', h'))"

text \<open>A sequence of \<^verbatim>\<open>RecordSDKInfo\<close> calls, one after the other.\<close>

fun record_calls :: "SDKVersionInterceptor \<Rightarrow> (string \<times> string) list \<Rightarrow> SDKVersionInterceptor" where
  "record_calls vi [] = vi"
| "record_calls vi ((nm, ver) # cs) = record_calls (RecordSDKInfo vi nm ver) cs"

section \<open>The NDC history resender (package xdc)\<close>

subsection \<open>Wire types\<close>

text \<open>
  \<^verbatim>\<open>[]byte\<close> is a list of bytes; \<^verbatim>\<open>nil\<close> and the empty slice are both \<open>[]\<close>.
  \<^verbatim>\<open>int64\<close> and \<^verbatim>\<open>int32\<close> are machine words; the resender only copies them.
  A Go \<^verbatim>\<open>error\<close> is a value: what a collaborator reported, or the iterator's own error.
\<close>

type_synonym bytes = string
type_synonym int64 = "64 word"
type_synonym int32 = "32 word"

datatype error = ServiceError string | IteratorContractError

text \<open>
  The protocol messages, with the fields the resender reads or writes. A field of the
  response has the prefix \<open>Resp_\<close> where the request has a field of the same name.
  A pointer that may be \<^verbatim>\<open>nil\<close> is an \<open>option\<close>.
\<close>

record WorkflowExecution =
  WorkflowId :: string
  RunId :: string

record DataBlob =
  EncodingType :: nat
  Data :: bytes

record VersionHistoryItem =
  EventId :: int64
  ItemVersion :: int64

record VersionHistory =
  BranchToken :: bytes
  Items :: "VersionHistoryItem list"

record GetWorkflowExecutionRawHistoryV2Request =
  Namespace :: string
  Execution :: WorkflowExecution
  StartEventId :: int64
  StartEventVersion :: int64
  EndEventId :: int64
  EndEventVersion :: int64
  MaximumPageSize :: int32
  NextPageToken :: bytes

record GetWorkflowExecutionRawHistoryV2Response =
  Resp_NextPageToken :: bytes
  Resp_HistoryBatches :: "DataBlob option list"
  Resp_VersionHistory :: "VersionHistory option"

record ReplicateEventsV2Request =
  NamespaceId :: string
  WorkflowExecution :: WorkflowExecution
  Events :: "DataBlob option"
  VersionHistoryItems :: "VersionHistoryItem list"

text \<open>
  Modelled from the spec: the generated getter \<^verbatim>\<open>GetItems\<close> of the version history
  (package \<^verbatim>\<open>.gen/proto/event\<close>) is not among the sources. The version-history items
  are "extracted from the page's version history"; a page without a version history
  (a \<^verbatim>\<open>nil\<close> pointer) has no items.
\<close>

definition GetItems :: "VersionHistory option \<Rightarrow> VersionHistoryItem list" where
  "GetItems vh = (case vh of None \<Rightarrow> [] | Some h \<Rightarrow> Items h)"

subsection \<open>The resender, its collaborators and what they observe\<close>

text \<open>\<^verbatim>\<open>historyBatch\<close>: a raw batch with the version history of its page.\<close>

record historyBatch =
  versionHistory :: "VersionHistory option"
  rawEventBatch :: "DataBlob option"

text \<open>A log entry: the message and the tags, those of \<^verbatim>\<open>WithTags\<close> first.\<close>

datatype tag =
  WorkflowNamespaceID string | WorkflowID string | WorkflowRunID string | TagError error

record log_entry =
  msg :: string
  tags :: "tag list"

text \<open>
  \<^verbatim>\<open>NDCHistoryResenderImpl\<close>. Each collaborator is deterministic and may keep state of
  its own: its answer is a function of the calls it has received so far and of the
  present call.
  \<^item> \<open>namespaceCache\<close> is \<^verbatim>\<open>GetNamespaceByID\<close> followed by \<^verbatim>\<open>GetInfo().Name\<close>;
  \<^item> \<open>adminClient\<close> is \<^verbatim>\<open>GetWorkflowExecutionRawHistoryV2\<close>; on success the
    response is not \<^verbatim>\<open>nil\<close>;
  \<^item> \<open>historyReplicationFn\<close> is the delivery function, \<open>None\<close> for a \<^verbatim>\<open>nil\<close> error;
  \<^item> \<open>defaultPageSize\<close> is the package constant of that name, declared in a file that
    is not among the sources, and therefore a parameter.
  The serializer is never used. The logger is the list \<open>logs\<close> of the trace. Deadlines
  are not modelled: a call that exceeds its deadline returns an error.
\<close>

record NDCHistoryResenderImpl =
  namespaceCache :: "string list \<Rightarrow> string \<Rightarrow> error + string"
  adminClient :: "GetWorkflowExecutionRawHistoryV2Request list
                    \<Rightarrow> GetWorkflowExecutionRawHistoryV2Request
                    \<Rightarrow> error + GetWorkflowExecutionRawHistoryV2Response"
  historyReplicationFn ::
    "ReplicateEventsV2Request list \<Rightarrow> ReplicateEventsV2Request \<Rightarrow> error option"
  defaultPageSize :: int32

text \<open>
  The trace of a run: every call made to a collaborator, in order, and every log entry
  written. \<open>deliveries\<close> holds every request handed to the delivery function, whether
  it was accepted or not.
\<close>

record trace =
  nsLookups :: "string list"
  adminCalls :: "GetWorkflowExecutionRawHistoryV2Request list"
  deliveries :: "ReplicateEventsV2Request list"
  logs :: "log_entry list"

subsection \<open>The paging iterator\<close>

text \<open>
  Modelled from the spec: \<^verbatim>\<open>collection.NewPagingIterator\<close>, \<^verbatim>\<open>HasNext\<close> and
  \<^verbatim>\<open>Next\<close> (package \<^verbatim>\<open>common/collection\<close>) are not among the sources. The iterator
  owns the current page, a cursor position within that page, the last-seen continuation
  token and a "finished" flag; the flag is false until a page has been fetched and is
  then true exactly when the last fetch returned an empty token.
  \<^item> \<open>HasNext\<close> is true iff the current page still has unread items, or a page has not yet
    been fetched, or the last fetch returned a non-empty continuation token. It calls
    nothing.
  \<^item> \<open>Next\<close>: if the current page is exhausted and more pages are believed to exist, it
    invokes the fetch function with the stored token; on success it replaces the page
    and cursor and stores the new token; on failure it propagates the error and leaves
    its state as it was. It returns the next unread item and advances the cursor. A
    fetched page with zero batches and a non-empty token is valid: fetching continues.
    Where no item is left and no page is believed to exist the call is a contract
    violation, made an explicit error.
  \<open>Next\<close> may fetch for ever (a source that keeps sending empty pages): not returning is
  the value \<open>None\<close>.
\<close>

record 'a PagingIterator =
  pageItems :: "'a list"
  cursor :: nat
  pageToken :: bytes
  finished :: bool

text \<open>
  Modelled from the spec: \<^verbatim>\<open>NewPagingIterator\<close>. Each call of the entry point builds
  a fresh iterator from scratch: no page has been fetched, there is no token yet.
\<close>

definition NewPagingIterator :: "'a PagingIterator" where
  "NewPagingIterator = \<lparr>pageItems = [], cursor = 0, pageToken = [], finished = False\<rparr>"

text \<open>
  Modelled from the spec: \<^verbatim>\<open>HasNext\<close>, true iff the page has unread items or the
  iterator is not finished (no page fetched yet, or the last token was not empty).
\<close>

definition HasNext :: "'a PagingIterator \<Rightarrow> bool" where
  "HasNext it = (cursor it < length (pageItems it) \<or> \<not> finished it)"

text \<open>
  Modelled from the spec: \<^verbatim>\<open>Next\<close>, with the fetch function \<open>F\<close> acting on the
  state \<open>'w\<close> of the caller.
\<close>

partial_function (option) Next ::
  "(bytes \<Rightarrow> 'w \<Rightarrow> (error + 'a list \<times> bytes) \<times> 'w) \<Rightarrow> 'a PagingIterator \<Rightarrow> 'w
     \<Rightarrow> ((error + 'a) \<times> 'a PagingIterator \<times> 'w) option" where
  "Next F it w =
     (if cursor it < length (pageItems it)
      then Some (Inr (pageItems it ! cursor it), it\<lparr>cursor := cursor it + 1\<rparr>, w)
      else if \<not> finished it
      then (case F (pageToken it) w of
              (Inl err, w') \<Rightarrow> Some (Inl err, it, w')
            | (Inr (items, tok), w') \<Rightarrow>
                Next F (it\<lparr>pageItems := items, cursor := 0, pageToken := tok,
                             finished := (tok = [])\<rparr>) w')
      else Some (Inl IteratorContractError, it, w))"

subsection \<open>Fetching a page\<close>

text \<open>
  \<^verbatim>\<open>getHistory\<close>: resolve the namespace, then one call of the admin client. Either
  failure is logged by the logger tagged with the run ID and returned as it is.
\<close>

definition getHistory ::
  "NDCHistoryResenderImpl \<Rightarrow> string \<Rightarrow> string \<Rightarrow> string
     \<Rightarrow> int64 \<Rightarrow> int64 \<Rightarrow> int64 \<Rightarrow> int64 \<Rightarrow> bytes \<Rightarrow> int32 \<Rightarrow> trace
     \<Rightarrow> (error + GetWorkflowExecutionRawHistoryV2Response) \<times> trace" where
  "getHistory n namespaceID workflowID runID startEventID startEventVersion endEventID
       endEventVersion token pageSize w =
     (case namespaceCache n (nsLookups w) namespaceID of
        Inl err \<Rightarrow>
          (Inl err,
           w\<lparr>nsLookups := nsLookups w @ [namespaceID],
              logs := logs w @ [\<lparr>msg = ''error getting namespace'',
                                  tags = [WorkflowRunID runID, TagError err]\<rparr>]\<rparr>)
      | Inr namespace \<Rightarrow>
          (let request = \<lparr>Namespace = namespace,
                           Execution = \<lparr>WorkflowId = workflowID, RunId = runID\<rparr>,
                           StartEventId = startEventID,
                           StartEventVersion = startEventVersion,
                           EndEventId = endEventID,
                           EndEventVersion = endEventVersion,
                           MaximumPageSize = pageSize,
                           NextPageToken = token\<rparr>
           in case adminClient n (adminCalls w) request of
                Inl err \<Rightarrow>
                  (Inl err,
                   w\<lparr>nsLookups := nsLookups w @ [namespaceID],
                      adminCalls := adminCalls w @ [request],
                      logs := logs w @ [\<lparr>msg = ''error getting history'',
                                          tags = [WorkflowRunID runID, TagError err]\<rparr>]\<rparr>)
              | Inr response \<Rightarrow>
                  (Inr response,
                   w\<lparr>nsLookups := nsLookups w @ [namespaceID],
                      adminCalls := adminCalls w @ [request]\<rparr>)))"

text \<open>
  \<^verbatim>\<open>getPaginationFn\<close> returns the fetch function of the iterator: one \<^verbatim>\<open>getHistory\<close>
  with the given token and the default page size, then one \<^verbatim>\<open>historyBatch\<close> appended
  per raw batch of the response, each with the response's version history.
\<close>

definition getPaginationFn ::
  "NDCHistoryResenderImpl \<Rightarrow> string \<Rightarrow> string \<Rightarrow> string
     \<Rightarrow> int64 \<Rightarrow> int64 \<Rightarrow> int64 \<Rightarrow> int64
     \<Rightarrow> bytes \<Rightarrow> trace \<Rightarrow> (error + historyBatch list \<times> bytes) \<times> trace" where
  "getPaginationFn n namespaceID workflowID runID startEventID startEventVersion endEventID
       endEventVersion =
     (\<lambda>paginationToken w.
        case getHistory n namespaceID workflowID runID startEventID startEventVersion
               endEventID endEventVersion paginationToken (defaultPageSize n) w of
          (Inl err, w') \<Rightarrow> (Inl err, w')
        | (Inr response, w') \<Rightarrow>
            (let versionHistory = Resp_VersionHistory response;
                 paginateItems =
                   foldl (\<lambda>acc history.
                            acc @ [\<lparr>versionHistory = versionHistory, rawEventBatch = history\<rparr>])
                     [] (Resp_HistoryBatches response)
             in (Inr (paginateItems, Resp_NextPageToken response), w')))"

subsection \<open>Building and sending a request\<close>

definition createReplicationRawRequest ::
  "string \<Rightarrow> string \<Rightarrow> string \<Rightarrow> DataBlob option \<Rightarrow> VersionHistoryItem list
     \<Rightarrow> ReplicateEventsV2Request" where
  "createReplicationRawRequest namespaceID workflowID runID historyBlob versionHistoryItems =
     \<lparr>NamespaceId = namespaceID,
      WorkflowExecution = \<lparr>WorkflowId = workflowID, RunId = runID\<rparr>,
      Events = historyBlob,
      VersionHistoryItems = versionHistoryItems\<rparr>"

definition sendReplicationRawRequest ::
  "NDCHistoryResenderImpl \<Rightarrow> ReplicateEventsV2Request \<Rightarrow> trace \<Rightarrow> error option \<times> trace" where
  "sendReplicationRawRequest n request w =
     (historyReplicationFn n (deliveries w) request,
      w\<lparr>deliveries := deliveries w @ [request]\<rparr>)"

subsection \<open>The resend loop\<close>

text \<open>
  The \<^verbatim>\<open>for historyIterator.HasNext()\<close> loop of \<^verbatim>\<open>SendSingleWorkflowHistory\<close>. The
  result is \<open>Some (None, w)\<close> for \<^verbatim>\<open>return nil\<close>, \<open>Some (Some err, w)\<close> for
  \<^verbatim>\<open>return err\<close>, and \<open>None\<close> where the loop does not return.
\<close>

partial_function (option) SendSingleWorkflowHistory_loop ::
  "NDCHistoryResenderImpl \<Rightarrow> string \<Rightarrow> string \<Rightarrow> string
     \<Rightarrow> (bytes \<Rightarrow> trace \<Rightarrow> (error + historyBatch list \<times> bytes) \<times> trace)
     \<Rightarrow> historyBatch PagingIterator \<Rightarrow> trace \<Rightarrow> (error option \<times> trace) option" where
  "SendSingleWorkflowHistory_loop n namespaceID workflowID runID F historyIterator w =
     (if \<not> HasNext historyIterator then Some (None, w)
      else
        (case Next F historyIterator w of
           None \<Rightarrow> None
         | Some (Inl err, it', w') \<Rightarrow>
             Some (Some err,
                   w'\<lparr>logs := logs w' @ [\<lparr>msg = ''failed to get history events'',
                                            tags = [WorkflowNamespaceID namespaceID,
                                                    WorkflowID workflowID,
                                                    WorkflowRunID runID,
                                                    TagError err]\<rparr>]\<rparr>)
         | Some (Inr historyBatch, it', w') \<Rightarrow>
             (let replicationRequest =
                    createReplicationRawRequest namespaceID workflowID runID
                      (rawEventBatch historyBatch) (GetItems (versionHistory historyBatch))
              in case sendReplicationRawRequest n replicationRequest w' of
                   (Some err, w'') \<Rightarrow>
                     Some (Some err,
                           w''\<lparr>logs := logs w'' @ [\<lparr>msg = ''failed to replicate events'',
                                                      tags = [WorkflowNamespaceID namespaceID,
                                                              WorkflowID workflowID,
                                                              WorkflowRunID runID,
                                                              TagError err]\<rparr>]\<rparr>)
                 | (None, w'') \<Rightarrow>
                     SendSingleWorkflowHistory_loop n namespaceID workflowID runID F it' w'')))"

definition SendSingleWorkflowHistory ::
  "NDCHistoryResenderImpl \<Rightarrow> string \<Rightarrow> string \<Rightarrow> string
     \<Rightarrow> int64 \<Rightarrow> int64 \<Rightarrow> int64 \<Rightarrow> int64 \<Rightarrow> trace
     \<Rightarrow> (error option \<times> trace) option" where
  "SendSingleWorkflowHistory n namespaceID workflowID runID startEventID startEventVersion
       endEventID endEventVersion w =
     SendSingleWorkflowHistory_loop n namespaceID workflowID runID
       (getPaginationFn n namespaceID workflowID runID startEventID startEventVersion
          endEventID endEventVersion)
       NewPagingIterator w"

declare Next.simps [code]
declare SendSingleWorkflowHistory_loop.simps [code]

subsection \<open>What the collaborators do in a run\<close>

text \<open>
  The requests that the entry point is expected to derive from one page: one per raw
  batch, in the order of the page, each with the version-history items of the page.
\<close>

definition page_requests ::
  "string \<Rightarrow> string \<Rightarrow> string \<Rightarrow> GetWorkflowExecutionRawHistoryV2Response
     \<Rightarrow> ReplicateEventsV2Request list" where
  "page_requests nid wid rid p =
     map (\<lambda>b. \<lparr>NamespaceId = nid,
               WorkflowExecution = \<lparr>WorkflowId = wid, RunId = rid\<rparr>,
               Events = b,
               VersionHistoryItems = GetItems (Resp_VersionHistory p)\<rparr>)
       (Resp_HistoryBatches p)"

text \<open>The requests expected from a sequence of pages, page after page.\<close>

definition run_requests ::
  "string \<Rightarrow> string \<Rightarrow> string \<Rightarrow> ('q \<times> GetWorkflowExecutionRawHistoryV2Response) list
     \<Rightarrow> ReplicateEventsV2Request list" where
  "run_requests nid wid rid xs = concat (map (\<lambda>x. page_requests nid wid rid (snd x)) xs)"

text \<open>
  The request by which a page is asked for: the resolved namespace name \<open>nm\<close>, the
  execution, the range, the default page size and the continuation token.
\<close>

definition history_request ::
  "NDCHistoryResenderImpl \<Rightarrow> string \<Rightarrow> string \<Rightarrow> string
     \<Rightarrow> int64 \<Rightarrow> int64 \<Rightarrow> int64 \<Rightarrow> int64 \<Rightarrow> bytes
     \<Rightarrow> GetWorkflowExecutionRawHistoryV2Request" where
  "history_request n nm wid rid s sv e ev tok =
     \<lparr>Namespace = nm, Execution = \<lparr>WorkflowId = wid, RunId = rid\<rparr>,
      StartEventId = s, StartEventVersion = sv, EndEventId = e, EndEventVersion = ev,
      MaximumPageSize = defaultPageSize n, NextPageToken = tok\<rparr>"

text \<open>
  \<open>served n nid wid rid s sv e ev L A tok xs\<close>: after the lookups \<open>L\<close> and the admin
  calls \<open>A\<close>, the source serves the pages of \<open>xs\<close> one after the other, starting at the
  token \<open>tok\<close>. An element of \<open>xs\<close> is a request and the page that answers it: the
  namespace resolves, the request carries that name, the range, the default page size
  and the token of the page before, and every page but the last of \<open>xs\<close> has a token.
\<close>

fun served ::
  "NDCHistoryResenderImpl \<Rightarrow> string \<Rightarrow> string \<Rightarrow> string
     \<Rightarrow> int64 \<Rightarrow> int64 \<Rightarrow> int64 \<Rightarrow> int64
     \<Rightarrow> string list \<Rightarrow> GetWorkflowExecutionRawHistoryV2Request list \<Rightarrow> bytes
     \<Rightarrow> (GetWorkflowExecutionRawHistoryV2Request \<times> GetWorkflowExecutionRawHistoryV2Response) list
     \<Rightarrow> bool" where
  "served n nid wid rid s sv e ev L A tok [] = True"
| "served n nid wid rid s sv e ev L A tok ((q, p) # xs) =
     (case namespaceCache n L nid of
        Inl err \<Rightarrow> False
      | Inr nm \<Rightarrow>
          q = history_request n nm wid rid s sv e ev tok
          \<and> adminClient n A q = Inr p
          \<and> (xs = [] \<or> Resp_NextPageToken p \<noteq> [])
          \<and> served n nid wid rid s sv e ev (L @ [nid]) (A @ [q]) (Resp_NextPageToken p) xs)"

text \<open>The token with which the page after those of \<open>xs\<close> is asked for.\<close>

definition next_token ::
  "bytes \<Rightarrow> ('q \<times> GetWorkflowExecutionRawHistoryV2Response) list \<Rightarrow> bytes" where
  "next_token tok xs = (if xs = [] then tok else Resp_NextPageToken (snd (last xs)))"

text \<open>
  \<open>accepted f D rs\<close>: after the deliveries \<open>D\<close>, the delivery function accepts the
  requests \<open>rs\<close> one after the other.
\<close>

fun accepted ::
  "(ReplicateEventsV2Request list \<Rightarrow> ReplicateEventsV2Request \<Rightarrow> error option)
     \<Rightarrow> ReplicateEventsV2Request list \<Rightarrow> ReplicateEventsV2Request list \<Rightarrow> bool" where
  "accepted f D [] = True"
| "accepted f D (r # rs) = (f D r = None \<and> accepted f (D @ [r]) rs)"

text \<open>
  The items that the pagination function makes of a page, the request that the loop
  builds from an item, and the iterator once a page has been read to its end.
\<close>

definition page_items :: "GetWorkflowExecutionRawHistoryV2Response \<Rightarrow> historyBatch list" where
  "page_items p =
     map (\<lambda>h. \<lparr>versionHistory = Resp_VersionHistory p, rawEventBatch = h\<rparr>)
       (Resp_HistoryBatches p)"

definition batch_request ::
  "string \<Rightarrow> string \<Rightarrow> string \<Rightarrow> historyBatch \<Rightarrow> ReplicateEventsV2Request" where
  "batch_request nid wid rid b =
     \<lparr>NamespaceId = nid, WorkflowExecution = \<lparr>WorkflowId = wid, RunId = rid\<rparr>,
      Events = rawEventBatch b, VersionHistoryItems = GetItems (versionHistory b)\<rparr>"

definition after_page ::
  "GetWorkflowExecutionRawHistoryV2Response \<Rightarrow> historyBatch PagingIterator" where
  "after_page p =
     \<lparr>pageItems = page_items p, cursor = length (page_items p),
      pageToken = Resp_NextPageToken p, finished = (Resp_NextPageToken p = [])\<rparr>"

text \<open>
  \<open>fetched_page n k A i\<close> is the page with which the admin client answered call number
  \<open>i\<close> of the calls \<open>A\<close>, for the calls from number \<open>k\<close> on (those of the run at hand).
  An item, or a request, comes from a fetched page when its raw batch is one of the
  batches of that page and its version history is that of the same page.
\<close>

definition fetched_page ::
  "NDCHistoryResenderImpl \<Rightarrow> nat \<Rightarrow> GetWorkflowExecutionRawHistoryV2Request list \<Rightarrow> nat
     \<Rightarrow> GetWorkflowExecutionRawHistoryV2Response option" where
  "fetched_page n k A i =
     (if k \<le> i \<and> i < length A
      then (case adminClient n (take i A) (A ! i) of Inl err \<Rightarrow> None | Inr p \<Rightarrow> Some p)
      else None)"

definition item_from_page :: "GetWorkflowExecutionRawHistoryV2Response \<Rightarrow> historyBatch \<Rightarrow> bool" where
  "item_from_page p b =
     (rawEventBatch b \<in> set (Resp_HistoryBatches p) \<and> versionHistory b = Resp_VersionHistory p)"

definition request_from_page ::
  "GetWorkflowExecutionRawHistoryV2Response \<Rightarrow> ReplicateEventsV2Request \<Rightarrow> bool" where
  "request_from_page p d =
     (Events d \<in> set (Resp_HistoryBatches p)
      \<and> VersionHistoryItems d = GetItems (Resp_VersionHistory p))"

definition item_fetched ::
  "NDCHistoryResenderImpl \<Rightarrow> nat \<Rightarrow> GetWorkflowExecutionRawHistoryV2Request list
     \<Rightarrow> historyBatch \<Rightarrow> bool" where
  "item_fetched n k A b =
     (\<exists>i\<in>{..<length A}.
        case fetched_page n k A i of None \<Rightarrow> False | Some p \<Rightarrow> item_from_page p b)"

definition request_fetched ::
  "NDCHistoryResenderImpl \<Rightarrow> nat \<Rightarrow> GetWorkflowExecutionRawHistoryV2Request list
     \<Rightarrow> ReplicateEventsV2Request \<Rightarrow> bool" where
  "request_fetched n k A d =
     (\<exists>i\<in>{..<length A}.
        case fetched_page n k A i of None \<Rightarrow> False | Some p \<Rightarrow> request_from_page p d)"

text \<open>
  What a call of \<open>Next\<close> and what the loop guarantee, for the run whose admin calls
  start at number \<open>k\<close>: the trace only grows, \<open>Next\<close> delivers nothing, the items of
  the iterator come from fetched pages, and every request the loop delivers comes from a
  fetched page and carries the identifiers of the entry point.
\<close>

definition Next_post ::
  "NDCHistoryResenderImpl \<Rightarrow> nat \<Rightarrow> trace
     \<Rightarrow> (error + historyBatch) \<times> historyBatch PagingIterator \<times> trace \<Rightarrow> bool" where
  "Next_post n k w y =
     (case y of (r, it', w') \<Rightarrow>
        take (length (adminCalls w)) (adminCalls w') = adminCalls w
        \<and> length (adminCalls w) \<le> length (adminCalls w')
        \<and> deliveries w' = deliveries w
        \<and> list_all (item_fetched n k (adminCalls w')) (pageItems it')
        \<and> (case r of Inl err \<Rightarrow> True | Inr b \<Rightarrow> item_fetched n k (adminCalls w') b))"

definition request_ok ::
  "NDCHistoryResenderImpl \<Rightarrow> nat \<Rightarrow> string \<Rightarrow> string \<Rightarrow> string
     \<Rightarrow> GetWorkflowExecutionRawHistoryV2Request list \<Rightarrow> ReplicateEventsV2Request \<Rightarrow> bool" where
  "request_ok n k nid wid rid A d =
     (request_fetched n k A d \<and> NamespaceId d = nid
      \<and> WorkflowExecution d = \<lparr>WorkflowId = wid, RunId = rid\<rparr>)"

definition loop_post ::
  "NDCHistoryResenderImpl \<Rightarrow> nat \<Rightarrow> string \<Rightarrow> string \<Rightarrow> string \<Rightarrow> trace
     \<Rightarrow> error option \<times> trace \<Rightarrow> bool" where
  "loop_post n k nid wid rid w y =
     (case y of (r, w') \<Rightarrow>
        take (length (deliveries w)) (deliveries w') = deliveries w
        \<and> length (deliveries w) \<le> length (deliveries w')
        \<and> take (length (adminCalls w)) (adminCalls w') = adminCalls w
        \<and> length (adminCalls w) \<le> length (adminCalls w')
        \<and> list_all (request_ok n k nid wid rid (adminCalls w'))
             (drop (length (deliveries w)) (deliveries w')))"

subsection \<open>Concrete runs\<close>

text \<open>
  The scenario of the specification: the range (1, 0, 100, 0); page A has one batch,
  the version history [(1, 0)] and the token "T1"; page B, asked for with "T1", has one
  batch, the version history [(50, 0), (100, 0)] and no token. The namespace directory
  knows the one namespace "ns-id"; the delivery function accepts everything.
\<close>

definition empty_trace :: trace where
  "empty_trace = \<lparr>nsLookups = [], adminCalls = [], deliveries = [], logs = []\<rparr>"

definition blob :: "string \<Rightarrow> DataBlob option" where
  "blob d = Some \<lparr>EncodingType = 1, Data = d\<rparr>"

definition scenario_pageA :: GetWorkflowExecutionRawHistoryV2Response where
  "scenario_pageA =
     \<lparr>Resp_NextPageToken = ''T1'', Resp_HistoryBatches = [blob ''A''],
      Resp_VersionHistory =
        Some \<lparr>BranchToken = [], Items = [\<lparr>EventId = 1, ItemVersion = 0\<rparr>]\<rparr>\<rparr>"

definition scenario_pageB :: GetWorkflowExecutionRawHistoryV2Response where
  "scenario_pageB =
     \<lparr>Resp_NextPageToken = [], Resp_HistoryBatches = [blob ''B''],
      Resp_VersionHistory =
        Some \<lparr>BranchToken = [],
              Items = [\<lparr>EventId = 50, ItemVersion = 0\<rparr>, \<lparr>EventId = 100, ItemVersion = 0\<rparr>]\<rparr>\<rparr>"

definition scenario_directory :: "string list \<Rightarrow> string \<Rightarrow> error + string" where
  "scenario_directory L i =
     (if i = ''ns-id'' then Inr ''ns'' else Inl (ServiceError ''namespace not found''))"

definition scenario_resender :: NDCHistoryResenderImpl where
  "scenario_resender =
     \<lparr>namespaceCache = scenario_directory,
      adminClient = (\<lambda>A r. if NextPageToken r = [] then Inr scenario_pageA
                            else if NextPageToken r = ''T1'' then Inr scenario_pageB
                            else Inl (ServiceError ''unknown token'')),
      historyReplicationFn = (\<lambda>D r. None),
      defaultPageSize = 100\<rparr>"

definition scenario_request :: "string \<Rightarrow> GetWorkflowExecutionRawHistoryV2Request" where
  "scenario_request tok =
     \<lparr>Namespace = ''ns'', Execution = \<lparr>WorkflowId = ''wf'', RunId = ''run''\<rparr>,
      StartEventId = 1, StartEventVersion = 0, EndEventId = 100, EndEventVersion = 0,
      MaximumPageSize = 100, NextPageToken = tok\<rparr>"

text \<open>A page that carries two raw batches, with and without a token.\<close>

definition two_batch_page :: "bytes \<Rightarrow> GetWorkflowExecutionRawHistoryV2Response" where
  "two_batch_page tok =
     \<lparr>Resp_NextPageToken = tok, Resp_HistoryBatches = [blob ''A1'', blob ''A2''],
      Resp_VersionHistory =
        Some \<lparr>BranchToken = [], Items = [\<lparr>EventId = 1, ItemVersion = 0\<rparr>]\<rparr>\<rparr>"

text \<open>A source whose only page carries two batches.\<close>

definition two_batch_resender :: NDCHistoryResenderImpl where
  "two_batch_resender =
     \<lparr>namespaceCache = scenario_directory,
      adminClient = (\<lambda>A r. Inr (two_batch_page [])),
      historyReplicationFn = (\<lambda>D r. None),
      defaultPageSize = 100\<rparr>"

text \<open>A source whose first page carries two batches and whose second fetch fails.\<close>

definition failing_source_resender :: NDCHistoryResenderImpl where
  "failing_source_resender =
     \<lparr>namespaceCache = scenario_directory,
      adminClient = (\<lambda>A r. if NextPageToken r = [] then Inr (two_batch_page ''T1'')
                            else Inl (ServiceError ''unavailable'')),
      historyReplicationFn = (\<lambda>D r. None),
      defaultPageSize = 100\<rparr>"

text \<open>A delivery function that rejects the second request it is handed.\<close>

definition failing_sink_resender :: NDCHistoryResenderImpl where
  "failing_sink_resender =
     \<lparr>namespaceCache = scenario_directory,
      adminClient = (\<lambda>A r. Inr (two_batch_page [])),
      historyReplicationFn =
        (\<lambda>D r. if length D = 1 then Some (ServiceError ''rejected'') else None),
      defaultPageSize = 100\<rparr>"

section \<open>Properties of the SDK version interceptor\<close>

subsection \<open>The recorded set\<close>

lemma RecordSDKInfo_maxSetSize [simp]:
  "maxSetSize (RecordSDKInfo vi nm ver) = maxSetSize vi"
  by (simp add: RecordSDKInfo_def Let_def)

lemma RecordSDKInfo_bound:
  "int (fcard (sdkInfoSet vi)) \<le> maxSetSize vi
     \<Longrightarrow> int (fcard (sdkInfoSet (RecordSDKInfo vi nm ver))) \<le> maxSetSize vi"
  by (auto simp: RecordSDKInfo_def Let_def fcard_finsert_if)

lemma record_calls_maxSetSize [simp]:
  "maxSetSize (record_calls vi cs) = maxSetSize vi"
  by (induction vi cs rule: record_calls.induct) simp_all

lemma record_calls_bound:
  "int (fcard (sdkInfoSet vi)) \<le> maxSetSize vi
     \<Longrightarrow> int (fcard (sdkInfoSet (record_calls vi cs))) \<le> maxSetSize vi"
proof (induction vi cs rule: record_calls.induct)
  case (1 vi)
  then show ?case by simp
next
  case (2 vi nm ver cs)
  from 2(2) have "int (fcard (sdkInfoSet (RecordSDKInfo vi nm ver))) \<le> maxSetSize (RecordSDKInfo vi nm ver)"
    by (simp add: RecordSDKInfo_bound)
  from 2(1)[OF this] show ?case by simp
qed

lemma RecordSDKInfo_overCap:
  "maxSetSize vi \<le> int (fcard (sdkInfoSet vi)) \<Longrightarrow> RecordSDKInfo vi nm ver = vi"
  by (simp add: RecordSDKInfo_def Let_def)

lemma RecordSDKInfo_subset:
  "fset (sdkInfoSet (RecordSDKInfo vi nm ver)) \<subseteq> insert (sdkNameVersion nm ver) (fset (sdkInfoSet vi))"
  by (auto simp: RecordSDKInfo_def Let_def)

lemma record_calls_subset:
  "fset (sdkInfoSet (record_calls vi cs))
     \<subseteq> fset (sdkInfoSet vi) \<union> (\<lambda>(nm, ver). sdkNameVersion nm ver) ` set cs"
proof (induction vi cs rule: record_calls.induct)
  case (1 vi)
  show ?case by simp
next
  case (2 vi nm ver cs)
  show ?case using 2 RecordSDKInfo_subset[of vi nm ver] by auto
qed

lemma RecordSDKInfo_room:
  assumes "int (card (insert (sdkNameVersion nm ver) (fset (sdkInfoSet vi)))) \<le> maxSetSize vi"
  shows "sdkInfoSet (RecordSDKInfo vi nm ver) = finsert (sdkNameVersion nm ver) (sdkInfoSet vi)"
proof (cases "sdkNameVersion nm ver |\<in>| sdkInfoSet vi")
  case True
  then show ?thesis by (auto simp: RecordSDKInfo_def Let_def)
next
  case False
  then have "card (insert (sdkNameVersion nm ver) (fset (sdkInfoSet vi))) = Suc (fcard (sdkInfoSet vi))"
    by (simp add: fcard.rep_eq)
  with assms have "\<not> maxSetSize vi \<le> int (fcard (sdkInfoSet vi))" by simp
  with False show ?thesis by (simp add: RecordSDKInfo_def Let_def)
qed

lemma record_calls_room:
  "int (card (fset (sdkInfoSet vi) \<union> (\<lambda>(nm, ver). sdkNameVersion nm ver) ` set cs)) \<le> maxSetSize vi
   \<Longrightarrow> fset (sdkInfoSet (record_calls vi cs))
         = fset (sdkInfoSet vi) \<union> (\<lambda>(nm, ver). sdkNameVersion nm ver) ` set cs"
proof (induction vi cs rule: record_calls.induct)
  case (1 vi)
  show ?case by simp
next
  case (2 vi nm ver cs)
  let ?U = "fset (sdkInfoSet vi) \<union> (\<lambda>(nm, ver). sdkNameVersion nm ver) ` set ((nm, ver) # cs)"
  have fin: "finite ?U" by simp
  have "insert (sdkNameVersion nm ver) (fset (sdkInfoSet vi)) \<subseteq> ?U" by auto
  from card_mono[OF fin this] 2(2)
  have "int (card (insert (sdkNameVersion nm ver) (fset (sdkInfoSet vi)))) \<le> maxSetSize vi"
    by linarith
  from RecordSDKInfo_room[OF this]
  have step: "sdkInfoSet (RecordSDKInfo vi nm ver) = finsert (sdkNameVersion nm ver) (sdkInfoSet vi)" .
  have eqU: "fset (sdkInfoSet (RecordSDKInfo vi nm ver)) \<union> (\<lambda>(nm, ver). sdkNameVersion nm ver) ` set cs = ?U"
    by (auto simp: step)
  have "fset (sdkInfoSet (record_calls (RecordSDKInfo vi nm ver) cs)) = ?U"
    using "2.IH" 2(2) unfolding eqU by simp
  then show ?case by simp
qed

text \<open>
  Claim C8. The recorded set is bounded: for every sequence of \<^verbatim>\<open>RecordSDKInfo\<close> calls
  made one after the other from an empty set, the number of distinct (name, version)
  pairs stored never exceeds \<open>maxSetSize\<close>, for any bound that is not negative and for
  the default bound 100; and \<^verbatim>\<open>RecordSDKInfo\<close> leaves the interceptor unchanged when the
  set is already at or above that size.
\<close>

theorem C8_recorded_set_bounded:
  "(0 \<le> m \<longrightarrow>
      int (fcard (sdkInfoSet (record_calls (NewSDKVersionInterceptor\<lparr>maxSetSize := m\<rparr>) cs))) \<le> m)
   \<and> int (fcard (sdkInfoSet (record_calls NewSDKVersionInterceptor cs))) \<le> 100
   \<and> (maxSetSize vi \<le> int (fcard (sdkInfoSet vi)) \<longrightarrow> RecordSDKInfo vi nm ver = vi)"
proof (intro conjI impI)
  assume m: "0 \<le> m"
  let ?v = "NewSDKVersionInterceptor\<lparr>maxSetSize := m\<rparr>"
  have "int (fcard (sdkInfoSet ?v)) \<le> maxSetSize ?v"
    using m by (simp add: NewSDKVersionInterceptor_def fcard_fempty)
  from record_calls_bound[OF this, of cs] show
    "int (fcard (sdkInfoSet (record_calls ?v cs))) \<le> m" by simp
next
  have "int (fcard (sdkInfoSet NewSDKVersionInterceptor)) \<le> maxSetSize NewSDKVersionInterceptor"
    by (simp add: NewSDKVersionInterceptor_def defaultMaxSetSize_def fcard_fempty)
  from record_calls_bound[OF this, of cs]
  show "int (fcard (sdkInfoSet (record_calls NewSDKVersionInterceptor cs))) \<le> 100"
    by (simp add: NewSDKVersionInterceptor_def defaultMaxSetSize_def)
next
  assume "maxSetSize vi \<le> int (fcard (sdkInfoSet vi))"
  then show "RecordSDKInfo vi nm ver = vi" by (rule RecordSDKInfo_overCap)
qed

theorem C8_recorded_set_bounded_witness:
  "(0::int) \<le> 1
   \<and> sdkInfoSet (record_calls (NewSDKVersionInterceptor\<lparr>maxSetSize := 1\<rparr>)
        [(''go'', ''1.0''), (''java'', ''2.0'')]) = {|sdkNameVersion ''go'' ''1.0''|}
   \<and> int (fcard (sdkInfoSet (record_calls (NewSDKVersionInterceptor\<lparr>maxSetSize := 1\<rparr>)
        [(''go'', ''1.0''), (''java'', ''2.0'')]))) \<le> 1
   \<and> maxSetSize \<lparr>sdkInfoSet = {|sdkNameVersion ''go'' ''1.0''|}, maxSetSize = 1\<rparr>
        \<le> int (fcard (sdkInfoSet \<lparr>sdkInfoSet = {|sdkNameVersion ''go'' ''1.0''|}, maxSetSize = 1\<rparr>))
   \<and> RecordSDKInfo \<lparr>sdkInfoSet = {|sdkNameVersion ''go'' ''1.0''|}, maxSetSize = 1\<rparr> ''java'' ''2.0''
        = \<lparr>sdkInfoSet = {|sdkNameVersion ''go'' ''1.0''|}, maxSetSize = 1\<rparr>"
  using C8_recorded_set_bounded [of 1 "[(''go'', ''1.0''), (''java'', ''2.0'')]"
      "\<lparr>sdkInfoSet = {|sdkNameVersion ''go'' ''1.0''|}, maxSetSize = 1\<rparr>" "''java''" "''2.0''"]
  by (simp add: NewSDKVersionInterceptor_def RecordSDKInfo_def Let_def fcard_fempty fcard_finsert_if)

subsection \<open>Snapshot and reset\<close>

lemma foldl_append_entries:
  "foldl (\<lambda>acc k. acc @ [f k]) acc ks = acc @ map f ks"
  by (induction ks arbitrary: acc) simp_all

lemma inj_entry: "inj (\<lambda>k. SDKInfo (name k) (version k))"
  by (rule injI) (simp add: sdkNameVersion.expand)

lemma GetAndResetSDKInfo_out:
  "fst (GetAndResetSDKInfo rng vi) = map (\<lambda>k. SDKInfo (name k) (version k)) (rng (sdkInfoSet vi))"
  by (simp add: GetAndResetSDKInfo_def Let_def foldl_append_entries)

lemma GetAndResetSDKInfo_reset:
  "snd (GetAndResetSDKInfo rng vi) = vi\<lparr>sdkInfoSet := {||}\<rparr>"
  by (simp add: GetAndResetSDKInfo_def Let_def)

text \<open>
  Claim C9. \<^verbatim>\<open>GetAndResetSDKInfo\<close> has snapshot-and-reset semantics. After the calls
  \<open>cs\<close> of \<^verbatim>\<open>RecordSDKInfo\<close> that followed the previous reset, in whatever order the
  keys are visited, it returns exactly one entry, with the recorded name and version, for
  each pair stored; the pairs stored are among those of \<open>cs\<close>, and are all those of \<open>cs\<close>
  when their number does not exceed the bound; afterwards the set is empty, and a second
  call at once returns the empty list.
\<close>

theorem C9_snapshot_and_reset:
  assumes "sdkInfoSet vi0 = {||}"
    and "range_visits rng (sdkInfoSet (record_calls vi0 cs))"
    and "range_visits rng {||}"
  shows "distinct (fst (GetAndResetSDKInfo rng (record_calls vi0 cs)))
       \<and> set (fst (GetAndResetSDKInfo rng (record_calls vi0 cs)))
           = (\<lambda>k. SDKInfo (name k) (version k)) ` fset (sdkInfoSet (record_calls vi0 cs))
       \<and> length (fst (GetAndResetSDKInfo rng (record_calls vi0 cs)))
           = fcard (sdkInfoSet (record_calls vi0 cs))
       \<and> fset (sdkInfoSet (record_calls vi0 cs))
           \<subseteq> (\<lambda>(nm, ver). sdkNameVersion nm ver) ` set cs
       \<and> (int (card (set cs)) \<le> maxSetSize vi0
            \<longrightarrow> set (fst (GetAndResetSDKInfo rng (record_calls vi0 cs)))
                  = (\<lambda>(nm, ver). SDKInfo nm ver) ` set cs)
       \<and> sdkInfoSet (snd (GetAndResetSDKInfo rng (record_calls vi0 cs))) = {||}
       \<and> fst (GetAndResetSDKInfo rng (snd (GetAndResetSDKInfo rng (record_calls vi0 cs)))) = []"
proof -
  let ?vi = "record_calls vi0 cs"
  let ?key = "\<lambda>(nm, ver). sdkNameVersion nm ver"
  from assms(2) have d: "distinct (rng (sdkInfoSet ?vi))"
    and s: "set (rng (sdkInfoSet ?vi)) = fset (sdkInfoSet ?vi)"
    by (simp_all add: range_visits_def)
  from assms(3) have e: "rng {||} = []" by (simp add: range_visits_def)
  have 1: "distinct (fst (GetAndResetSDKInfo rng ?vi))"
    unfolding GetAndResetSDKInfo_out using d inj_entry
    by (simp add: distinct_map inj_on_def inj_def)
  have 2: "set (fst (GetAndResetSDKInfo rng ?vi))
      = (\<lambda>k. SDKInfo (name k) (version k)) ` fset (sdkInfoSet ?vi)"
    unfolding GetAndResetSDKInfo_out using s by simp
  have 3: "length (fst (GetAndResetSDKInfo rng ?vi)) = fcard (sdkInfoSet ?vi)"
    unfolding GetAndResetSDKInfo_out using d s
    by (simp add: fcard.rep_eq distinct_card[symmetric])
  have 4: "fset (sdkInfoSet ?vi) \<subseteq> ?key ` set cs"
    using record_calls_subset[of vi0 cs] assms(1) by simp
  have 5: "int (card (set cs)) \<le> maxSetSize vi0
      \<longrightarrow> set (fst (GetAndResetSDKInfo rng ?vi)) = (\<lambda>(nm, ver). SDKInfo nm ver) ` set cs"
  proof
    assume c: "int (card (set cs)) \<le> maxSetSize vi0"
    have "card (?key ` set cs) \<le> card (set cs)" by (rule card_image_le) simp
    with c have "int (card (fset (sdkInfoSet vi0) \<union> ?key ` set cs)) \<le> maxSetSize vi0"
      using assms(1) by simp
    from record_calls_room[OF this] assms(1)
    have st: "fset (sdkInfoSet ?vi) = ?key ` set cs" by simp
    have "(\<lambda>k. SDKInfo (name k) (version k)) ` ?key ` set cs
        = (\<lambda>(nm, ver). SDKInfo nm ver) ` set cs"
      by (auto simp: image_iff split: prod.splits) force+
    with 2 st show "set (fst (GetAndResetSDKInfo rng ?vi))
        = (\<lambda>(nm, ver). SDKInfo nm ver) ` set cs"
      by simp
  qed
  have 6: "sdkInfoSet (snd (GetAndResetSDKInfo rng ?vi)) = {||}"
    by (simp add: GetAndResetSDKInfo_reset)
  have 7: "fst (GetAndResetSDKInfo rng (snd (GetAndResetSDKInfo rng ?vi))) = []"
    unfolding GetAndResetSDKInfo_out using 6 e by simp
  from 1 2 3 4 5 6 7 show ?thesis by blast
qed

theorem C9_snapshot_and_reset_witness:
  "sdkInfoSet NewSDKVersionInterceptor = {||}
   \<and> range_visits (\<lambda>s. if s = {||} then [] else [sdkNameVersion ''go'' ''1.0''])
        (sdkInfoSet (record_calls NewSDKVersionInterceptor [(''go'', ''1.0''), (''go'', ''1.0'')]))
   \<and> range_visits (\<lambda>s. if s = {||} then [] else [sdkNameVersion ''go'' ''1.0'']) {||}
   \<and> int (card (set [(''go'', ''1.0''), (''go'', ''1.0'')])) \<le> maxSetSize NewSDKVersionInterceptor
   \<and> fst (GetAndResetSDKInfo (\<lambda>s. if s = {||} then [] else [sdkNameVersion ''go'' ''1.0''])
        (record_calls NewSDKVersionInterceptor [(''go'', ''1.0''), (''go'', ''1.0'')]))
       = [SDKInfo ''go'' ''1.0'']
   \<and> fst (GetAndResetSDKInfo (\<lambda>s. if s = {||} then [] else [sdkNameVersion ''go'' ''1.0''])
        (snd (GetAndResetSDKInfo (\<lambda>s. if s = {||} then [] else [sdkNameVersion ''go'' ''1.0''])
           (record_calls NewSDKVersionInterceptor [(''go'', ''1.0''), (''go'', ''1.0'')])))) = []"
proof -
  let ?rng = "\<lambda>s. if s = {||} then [] else [sdkNameVersion ''go'' ''1.0'']"
  let ?cs = "[(''go'', ''1.0''), (''go'', ''1.0'')]"
  have st: "sdkInfoSet (record_calls NewSDKVersionInterceptor ?cs) = {|sdkNameVersion ''go'' ''1.0''|}"
    by (simp add: NewSDKVersionInterceptor_def defaultMaxSetSize_def RecordSDKInfo_def Let_def
        fcard_fempty fcard_finsert_if)
  have h1: "sdkInfoSet NewSDKVersionInterceptor = {||}"
    by (simp add: NewSDKVersionInterceptor_def)
  have h2: "range_visits ?rng (sdkInfoSet (record_calls NewSDKVersionInterceptor ?cs))"
    unfolding st by (simp add: range_visits_def)
  have h3: "range_visits ?rng {||}" by (simp add: range_visits_def)
  have h4: "int (card (set ?cs)) \<le> maxSetSize NewSDKVersionInterceptor"
    by (simp add: NewSDKVersionInterceptor_def defaultMaxSetSize_def)
  have r1: "fst (GetAndResetSDKInfo ?rng (record_calls NewSDKVersionInterceptor ?cs))
      = [SDKInfo ''go'' ''1.0'']"
    unfolding GetAndResetSDKInfo_out st by simp
  from C9_snapshot_and_reset[OF h1 h2 h3]
  have r2: "fst (GetAndResetSDKInfo ?rng
      (snd (GetAndResetSDKInfo ?rng (record_calls NewSDKVersionInterceptor ?cs)))) = []"
    by blast
  from h1 h2 h3 h4 r1 r2 show ?thesis by blast
qed

subsection \<open>The interceptor\<close>

text \<open>
  Claim C10. \<^verbatim>\<open>Intercept\<close> calls \<^verbatim>\<open>RecordSDKInfo\<close> with the client name and version
  of the request context if and only if both are non-empty (the pair is then in the set
  whenever the set had room); when either is empty the interceptor is left unchanged; and
  in every case the wrapped handler is invoked, once, and what it returns is returned
  unmodified.
\<close>

theorem C10_intercept:
  "Intercept G vi ctx req info handler h =
     (fst (handler ctx req h),
      (if fst (G ctx) \<noteq> [] \<and> snd (G ctx) \<noteq> []
       then RecordSDKInfo vi (fst (G ctx)) (snd (G ctx)) else vi),
      snd (handler ctx req h))
   \<and> (fst (G ctx) = [] \<or> snd (G ctx) = [] \<longrightarrow>
        fst (snd (Intercept G vi ctx req info handler h)) = vi)
   \<and> (fst (G ctx) \<noteq> [] \<and> snd (G ctx) \<noteq> [] \<and> int (fcard (sdkInfoSet vi)) < maxSetSize vi \<longrightarrow>
        sdkNameVersion (fst (G ctx)) (snd (G ctx))
          |\<in>| sdkInfoSet (fst (snd (Intercept G vi ctx req info handler h))))"
proof -
  obtain sdkName sdkVersion where g: "G ctx = (sdkName, sdkVersion)" by (cases "G ctx")
  obtain res h' where hd: "handler ctx req h = (res, h')" by (cases "handler ctx req h")
  have run: "Intercept G vi ctx req info handler h
      = (res,
         (if sdkName \<noteq> [] \<and> sdkVersion \<noteq> [] then RecordSDKInfo vi sdkName sdkVersion else vi),
         h')"
    by (simp add: Intercept_def g hd)
  have stored: "sdkName \<noteq> [] \<and> sdkVersion \<noteq> [] \<and> int (fcard (sdkInfoSet vi)) < maxSetSize vi
      \<longrightarrow> sdkNameVersion sdkName sdkVersion |\<in>| sdkInfoSet (RecordSDKInfo vi sdkName sdkVersion)"
    by (simp add: RecordSDKInfo_def Let_def)
  from run stored show ?thesis by (auto simp: g hd)
qed


theorem C10_intercept_witness:
  "Intercept (\<lambda>ctx. ctx) NewSDKVersionInterceptor (''go'', ''1.0'') ''request'' ()
       (\<lambda>ctx req h. ((req, None :: error option), Suc h)) (0::nat)
     = ((''request'', None), RecordSDKInfo NewSDKVersionInterceptor ''go'' ''1.0'', 1)
   \<and> sdkNameVersion ''go'' ''1.0''
       |\<in>| sdkInfoSet (fst (snd (Intercept (\<lambda>ctx. ctx) NewSDKVersionInterceptor (''go'', ''1.0'')
             ''request'' () (\<lambda>ctx req h. ((req, None :: error option), Suc h)) (0::nat))))
   \<and> fst (snd (Intercept (\<lambda>ctx. ctx) NewSDKVersionInterceptor (''go'', []) ''request'' ()
             (\<lambda>ctx req h. ((req, None :: error option), Suc h)) (0::nat)))
       = NewSDKVersionInterceptor"
  using C10_intercept [of "\<lambda>ctx. ctx" NewSDKVersionInterceptor "(''go'', ''1.0'')" "''request''" "()"
      "\<lambda>ctx req h. ((req, None :: error option), Suc h)" "0::nat"]
    C10_intercept [of "\<lambda>ctx. ctx" NewSDKVersionInterceptor "(''go'', [])" "''request''" "()"
      "\<lambda>ctx req h. ((req, None :: error option), Suc h)" "0::nat"]
  by (simp add: NewSDKVersionInterceptor_def defaultMaxSetSize_def fcard_fempty
      RecordSDKInfo_def Let_def)

section \<open>Properties of the history resender\<close>

subsection \<open>Steps of the iterator and of the loop\<close>

lemmas run_defs =
  SendSingleWorkflowHistory_def SendSingleWorkflowHistory_loop.simps Next.simps HasNext_def
  NewPagingIterator_def getPaginationFn_def getHistory_def sendReplicationRawRequest_def
  createReplicationRawRequest_def GetItems_def Let_def empty_trace_def

lemmas scenario_defs =
  scenario_resender_def scenario_directory_def scenario_pageA_def scenario_pageB_def
  scenario_request_def two_batch_page_def blob_def history_request_def page_requests_def
  run_requests_def next_token_def

lemma paginateItems_map:
  "foldl (\<lambda>acc history. acc @ [\<lparr>versionHistory = vh, rawEventBatch = history\<rparr>]) acc hs
     = acc @ map (\<lambda>h. \<lparr>versionHistory = vh, rawEventBatch = h\<rparr>) hs"
  by (induction hs arbitrary: acc) simp_all

lemma Next_item:
  "cursor it < length (pageItems it)
   \<Longrightarrow> Next F it w = Some (Inr (pageItems it ! cursor it), it\<lparr>cursor := cursor it + 1\<rparr>, w)"
  by (subst Next.simps) simp

lemma Next_fetch_ok:
  "\<not> cursor it < length (pageItems it) \<Longrightarrow> \<not> finished it
   \<Longrightarrow> F (pageToken it) w = (Inr (items, tok), w')
   \<Longrightarrow> Next F it w
       = Next F (it\<lparr>pageItems := items, cursor := 0, pageToken := tok, finished := (tok = [])\<rparr>) w'"
  by (subst Next.simps) simp

lemma Next_fetch_err:
  "\<not> cursor it < length (pageItems it) \<Longrightarrow> \<not> finished it
   \<Longrightarrow> F (pageToken it) w = (Inl err, w')
   \<Longrightarrow> Next F it w = Some (Inl err, it, w')"
  by (subst Next.simps) simp

lemma loop_done:
  "\<not> HasNext it \<Longrightarrow> SendSingleWorkflowHistory_loop n nid wid rid F it w = Some (None, w)"
  by (subst SendSingleWorkflowHistory_loop.simps) simp

lemma loop_same_Next:
  "HasNext it \<Longrightarrow> HasNext it' \<Longrightarrow> Next F it w = Next F it' w'
   \<Longrightarrow> SendSingleWorkflowHistory_loop n nid wid rid F it w
       = SendSingleWorkflowHistory_loop n nid wid rid F it' w'"
  by (simp add: SendSingleWorkflowHistory_loop.simps[of n nid wid rid F it w]
      SendSingleWorkflowHistory_loop.simps[of n nid wid rid F it' w'])

lemma loop_Next_err:
  "HasNext it \<Longrightarrow> Next F it w = Some (Inl err, it', w')
   \<Longrightarrow> SendSingleWorkflowHistory_loop n nid wid rid F it w
       = Some (Some err,
               w'\<lparr>logs := logs w' @ [\<lparr>msg = ''failed to get history events'',
                    tags = [WorkflowNamespaceID nid, WorkflowID wid, WorkflowRunID rid,
                            TagError err]\<rparr>]\<rparr>)"
  by (subst SendSingleWorkflowHistory_loop.simps) simp

lemma loop_send_ok:
  "HasNext it \<Longrightarrow> Next F it w = Some (Inr b, it', w')
   \<Longrightarrow> historyReplicationFn n (deliveries w')
         \<lparr>NamespaceId = nid, WorkflowExecution = \<lparr>WorkflowId = wid, RunId = rid\<rparr>,
          Events = rawEventBatch b, VersionHistoryItems = GetItems (versionHistory b)\<rparr> = None
   \<Longrightarrow> SendSingleWorkflowHistory_loop n nid wid rid F it w
       = SendSingleWorkflowHistory_loop n nid wid rid F it'
           (w'\<lparr>deliveries := deliveries w' @
                 [\<lparr>NamespaceId = nid, WorkflowExecution = \<lparr>WorkflowId = wid, RunId = rid\<rparr>,
                   Events = rawEventBatch b, VersionHistoryItems = GetItems (versionHistory b)\<rparr>]\<rparr>)"
  by (subst SendSingleWorkflowHistory_loop.simps)
     (simp add: createReplicationRawRequest_def sendReplicationRawRequest_def)

lemma loop_send_err:
  "HasNext it \<Longrightarrow> Next F it w = Some (Inr b, it', w')
   \<Longrightarrow> historyReplicationFn n (deliveries w')
         \<lparr>NamespaceId = nid, WorkflowExecution = \<lparr>WorkflowId = wid, RunId = rid\<rparr>,
          Events = rawEventBatch b, VersionHistoryItems = GetItems (versionHistory b)\<rparr> = Some err
   \<Longrightarrow> SendSingleWorkflowHistory_loop n nid wid rid F it w
       = Some (Some err,
           w'\<lparr>deliveries := deliveries w' @
                 [\<lparr>NamespaceId = nid, WorkflowExecution = \<lparr>WorkflowId = wid, RunId = rid\<rparr>,
                   Events = rawEventBatch b, VersionHistoryItems = GetItems (versionHistory b)\<rparr>],
              logs := logs w' @ [\<lparr>msg = ''failed to replicate events'',
                    tags = [WorkflowNamespaceID nid, WorkflowID wid, WorkflowRunID rid,
                            TagError err]\<rparr>]\<rparr>)"
  by (subst SendSingleWorkflowHistory_loop.simps)
     (simp add: createReplicationRawRequest_def sendReplicationRawRequest_def)

subsection \<open>Reading a page\<close>

lemma page_requests_items:
  "page_requests nid wid rid p = map (batch_request nid wid rid) (page_items p)"
  by (simp add: page_requests_def page_items_def batch_request_def)

lemma accepted_append:
  "accepted f D (rs @ rs') = (accepted f D rs \<and> accepted f (D @ rs) rs')"
  by (induction rs arbitrary: D) simp_all

lemma length_page_requests [simp]:
  "length (page_requests nid wid rid p) = length (Resp_HistoryBatches p)"
  by (simp add: page_requests_def)

lemma run_requests_Nil [simp]: "run_requests nid wid rid [] = []"
  by (simp add: run_requests_def)

lemma run_requests_Cons [simp]:
  "run_requests nid wid rid (x # xs) = page_requests nid wid rid (snd x) @ run_requests nid wid rid xs"
  by (simp add: run_requests_def)

lemma length_run_requests:
  "length (run_requests nid wid rid xs)
     = sum_list (map (\<lambda>x. length (Resp_HistoryBatches (snd x))) xs)"
  by (induction xs) simp_all

lemma length_run_requests_single:
  "\<forall>x\<in>set xs. length (Resp_HistoryBatches (snd x)) = 1
   \<Longrightarrow> length (run_requests nid wid rid xs) = length xs"
  by (induction xs) simp_all

text \<open>Reading unread items of the current page, each of them accepted.\<close>

lemma drain:
  "k \<le> length (pageItems it) - cursor it
   \<Longrightarrow> accepted (historyReplicationFn n) (deliveries w)
         (map (batch_request nid wid rid) (take k (drop (cursor it) (pageItems it))))
   \<Longrightarrow> SendSingleWorkflowHistory_loop n nid wid rid F it w
       = SendSingleWorkflowHistory_loop n nid wid rid F (it\<lparr>cursor := cursor it + k\<rparr>)
           (w\<lparr>deliveries := deliveries w @
                 map (batch_request nid wid rid) (take k (drop (cursor it) (pageItems it)))\<rparr>)"
proof (induction k arbitrary: it w)
  case 0
  then show ?case by simp
next
  case (Suc k)
  let ?b = "pageItems it ! cursor it"
  let ?it1 = "it\<lparr>cursor := cursor it + 1\<rparr>"
  let ?w1 = "w\<lparr>deliveries := deliveries w @ [batch_request nid wid rid ?b]\<rparr>"
  from Suc.prems(1) have lt: "cursor it < length (pageItems it)" by simp
  then have dr: "drop (cursor it) (pageItems it) = ?b # drop (cursor it + 1) (pageItems it)"
    by (simp add: Cons_nth_drop_Suc)
  from Suc.prems(2) have ok: "historyReplicationFn n (deliveries w) (batch_request nid wid rid ?b) = None"
    and rest: "accepted (historyReplicationFn n) (deliveries ?w1)
         (map (batch_request nid wid rid) (take k (drop (cursor ?it1) (pageItems ?it1))))"
    by (simp_all add: dr)
  have hn: "HasNext it" using lt by (simp add: HasNext_def)
  have step: "SendSingleWorkflowHistory_loop n nid wid rid F it w
      = SendSingleWorkflowHistory_loop n nid wid rid F ?it1 ?w1"
    using loop_send_ok[OF hn Next_item[OF lt, of F w], of n nid wid rid] ok
    by (simp add: batch_request_def)
  have k: "k \<le> length (pageItems ?it1) - cursor ?it1" using Suc.prems(1) by simp
  from Suc.IH[OF k rest] step show ?case by (simp add: dr)
qed

text \<open>The delivery function rejects the item that follows \<open>k\<close> accepted ones.\<close>

lemma drain_rejected:
  assumes k: "k < length (pageItems it) - cursor it"
    and acc: "accepted (historyReplicationFn n) (deliveries w)
         (map (batch_request nid wid rid) (take k (drop (cursor it) (pageItems it))))"
    and rej: "historyReplicationFn n
         (deliveries w @ map (batch_request nid wid rid) (take k (drop (cursor it) (pageItems it))))
         (batch_request nid wid rid (pageItems it ! (cursor it + k))) = Some err"
  shows "SendSingleWorkflowHistory_loop n nid wid rid F it w
       = Some (Some err,
           w\<lparr>deliveries := deliveries w @
                 map (batch_request nid wid rid) (take (Suc k) (drop (cursor it) (pageItems it))),
              logs := logs w @ [\<lparr>msg = ''failed to replicate events'',
                    tags = [WorkflowNamespaceID nid, WorkflowID wid, WorkflowRunID rid,
                            TagError err]\<rparr>]\<rparr>)"
proof -
  let ?it1 = "it\<lparr>cursor := cursor it + k\<rparr>"
  let ?w1 = "w\<lparr>deliveries := deliveries w @
                 map (batch_request nid wid rid) (take k (drop (cursor it) (pageItems it)))\<rparr>"
  from k have k': "k \<le> length (pageItems it) - cursor it" by simp
  have 1: "SendSingleWorkflowHistory_loop n nid wid rid F it w
      = SendSingleWorkflowHistory_loop n nid wid rid F ?it1 ?w1"
    by (rule drain[OF k' acc])
  from k have lt: "cursor ?it1 < length (pageItems ?it1)" by simp
  have hn: "HasNext ?it1" using lt by (simp add: HasNext_def)
  have tk: "take (Suc k) (drop (cursor it) (pageItems it))
      = take k (drop (cursor it) (pageItems it)) @ [pageItems it ! (cursor it + k)]"
    using k by (simp add: take_Suc_conv_app_nth)
  show ?thesis
    unfolding 1
    using loop_send_err[OF hn Next_item[OF lt, of F ?w1], of n nid wid rid err] rej
    by (simp add: batch_request_def tk)
qed

subsection \<open>Fetching\<close>

lemma fetch_ok:
  assumes "namespaceCache n (nsLookups w) nid = Inr nm"
    and "adminClient n (adminCalls w) (history_request n nm wid rid s sv e ev tok) = Inr p"
  shows "getPaginationFn n nid wid rid s sv e ev tok w
       = (Inr (page_items p, Resp_NextPageToken p),
          w\<lparr>nsLookups := nsLookups w @ [nid],
             adminCalls := adminCalls w @ [history_request n nm wid rid s sv e ev tok]\<rparr>)"
  using assms
  by (simp add: getPaginationFn_def getHistory_def history_request_def Let_def
      paginateItems_map page_items_def)

lemma fetch_admin_err:
  assumes "namespaceCache n (nsLookups w) nid = Inr nm"
    and "adminClient n (adminCalls w) (history_request n nm wid rid s sv e ev tok) = Inl err"
  shows "getPaginationFn n nid wid rid s sv e ev tok w
       = (Inl err,
          w\<lparr>nsLookups := nsLookups w @ [nid],
             adminCalls := adminCalls w @ [history_request n nm wid rid s sv e ev tok],
             logs := logs w @ [\<lparr>msg = ''error getting history'',
                                 tags = [WorkflowRunID rid, TagError err]\<rparr>]\<rparr>)"
  using assms
  by (simp add: getPaginationFn_def getHistory_def history_request_def Let_def)

lemma fetch_ns_err:
  assumes "namespaceCache n (nsLookups w) nid = Inl err"
  shows "getPaginationFn n nid wid rid s sv e ev tok w
       = (Inl err,
          w\<lparr>nsLookups := nsLookups w @ [nid],
             logs := logs w @ [\<lparr>msg = ''error getting namespace'',
                                 tags = [WorkflowRunID rid, TagError err]\<rparr>]\<rparr>)"
  using assms
  by (simp add: getPaginationFn_def getHistory_def)

lemma fetch_cases:
  assumes "getPaginationFn n nid wid rid s sv e ev tok w = (r, w')"
  shows "deliveries w' = deliveries w
       \<and> ((\<exists>err. r = Inl err \<and> (adminCalls w' = adminCalls w \<or> (\<exists>q. adminCalls w' = adminCalls w @ [q])))
          \<or> (\<exists>q p. r = Inr (page_items p, Resp_NextPageToken p)
                \<and> adminClient n (adminCalls w) q = Inr p
                \<and> adminCalls w' = adminCalls w @ [q]))"
  using assms
  by (auto simp: getPaginationFn_def getHistory_def Let_def paginateItems_map page_items_def
      split: sum.splits)

text \<open>A fetch that fails ends the loop: the error is logged once more and returned.\<close>

lemma loop_fetch_err:
  assumes ex: "\<not> cursor it < length (pageItems it)" and nf: "\<not> finished it"
    and F: "F (pageToken it) w = (Inl err, w')"
  shows "SendSingleWorkflowHistory_loop n nid wid rid F it w
       = Some (Some err,
               w'\<lparr>logs := logs w' @ [\<lparr>msg = ''failed to get history events'',
                    tags = [WorkflowNamespaceID nid, WorkflowID wid, WorkflowRunID rid,
                            TagError err]\<rparr>]\<rparr>)"
proof -
  have hn: "HasNext it" using nf by (simp add: HasNext_def)
  show ?thesis by (rule loop_Next_err[OF hn Next_fetch_err[where F=F and it=it and w=w, OF ex nf F]])
qed

text \<open>A fetch that succeeds: the loop goes on at the start of the fetched page.\<close>

lemma loop_fetch_ok:
  assumes ex: "\<not> cursor it < length (pageItems it)" and nf: "\<not> finished it"
    and F: "F (pageToken it) w = (Inr (items, tok), w')"
    and more: "items \<noteq> [] \<or> tok \<noteq> []"
  shows "SendSingleWorkflowHistory_loop n nid wid rid F it w
       = SendSingleWorkflowHistory_loop n nid wid rid F
           \<lparr>pageItems = items, cursor = 0, pageToken = tok, finished = (tok = [])\<rparr> w'"
proof -
  let ?it1 = "it\<lparr>pageItems := items, cursor := 0, pageToken := tok, finished := (tok = [])\<rparr>"
  have eq: "?it1 = \<lparr>pageItems = items, cursor = 0, pageToken = tok, finished = (tok = [])\<rparr>"
    by simp
  have hn: "HasNext it" using nf by (simp add: HasNext_def)
  have hn1: "HasNext ?it1" using more by (auto simp: HasNext_def)
  have "Next F it w = Next F ?it1 w'" by (rule Next_fetch_ok[where F=F and it=it and w=w, OF ex nf F])
  from loop_same_Next[OF hn hn1 this] show ?thesis unfolding eq .
qed

text \<open>One page, fetched and delivered in full; then several, one after the other.\<close>

lemma loop_page:
  assumes ex: "\<not> cursor it < length (pageItems it)" and nf: "\<not> finished it"
    and ns: "namespaceCache n (nsLookups w) nid = Inr nm"
    and ad: "adminClient n (adminCalls w)
               (history_request n nm wid rid s sv e ev (pageToken it)) = Inr p"
    and more: "Resp_HistoryBatches p \<noteq> [] \<or> Resp_NextPageToken p \<noteq> []"
    and acc: "accepted (historyReplicationFn n) (deliveries w) (page_requests nid wid rid p)"
  shows "SendSingleWorkflowHistory_loop n nid wid rid
           (getPaginationFn n nid wid rid s sv e ev) it w
       = SendSingleWorkflowHistory_loop n nid wid rid
           (getPaginationFn n nid wid rid s sv e ev) (after_page p)
           (w\<lparr>nsLookups := nsLookups w @ [nid],
              adminCalls := adminCalls w @ [history_request n nm wid rid s sv e ev (pageToken it)],
              deliveries := deliveries w @ page_requests nid wid rid p\<rparr>)"
proof -
  let ?F = "getPaginationFn n nid wid rid s sv e ev"
  let ?w1 = "w\<lparr>nsLookups := nsLookups w @ [nid],
             adminCalls := adminCalls w @ [history_request n nm wid rid s sv e ev (pageToken it)]\<rparr>"
  let ?it1 = "\<lparr>pageItems = page_items p, cursor = 0, pageToken = Resp_NextPageToken p,
               finished = (Resp_NextPageToken p = [])\<rparr>"
  have more': "page_items p \<noteq> [] \<or> Resp_NextPageToken p \<noteq> []"
    using more by (simp add: page_items_def)
  have 1: "SendSingleWorkflowHistory_loop n nid wid rid ?F it w
      = SendSingleWorkflowHistory_loop n nid wid rid ?F ?it1 ?w1"
    by (rule loop_fetch_ok[where F="?F" and it=it and w=w, OF ex nf fetch_ok[OF ns ad] more'])
  have k: "length (page_items p) \<le> length (pageItems ?it1) - cursor ?it1" by simp
  have acc': "accepted (historyReplicationFn n) (deliveries ?w1)
      (map (batch_request nid wid rid)
         (take (length (page_items p)) (drop (cursor ?it1) (pageItems ?it1))))"
    using acc by (simp add: page_requests_items)
  from drain[OF k acc', of ?F] 1 show ?thesis
    by (simp add: after_page_def page_requests_items)
qed

lemma loop_pages:
  assumes "served n nid wid rid s sv e ev (nsLookups w) (adminCalls w) (pageToken it) xs"
    and "\<not> cursor it < length (pageItems it)" and "\<not> finished it"
    and "accepted (historyReplicationFn n) (deliveries w)
           (run_requests nid wid rid xs)"
    and "xs = [] \<or> Resp_HistoryBatches (snd (last xs)) \<noteq> []
           \<or> Resp_NextPageToken (snd (last xs)) \<noteq> []"
  shows "\<exists>it'. SendSingleWorkflowHistory_loop n nid wid rid
                 (getPaginationFn n nid wid rid s sv e ev) it w
             = SendSingleWorkflowHistory_loop n nid wid rid
                 (getPaginationFn n nid wid rid s sv e ev) it'
                 (w\<lparr>nsLookups := nsLookups w @ replicate (length xs) nid,
                    adminCalls := adminCalls w @ map fst xs,
                    deliveries := deliveries w
                       @ run_requests nid wid rid xs\<rparr>)
           \<and> \<not> cursor it' < length (pageItems it')
           \<and> pageToken it' = next_token (pageToken it) xs
           \<and> finished it' = (xs \<noteq> [] \<and> Resp_NextPageToken (snd (last xs)) = [])"
  using assms
proof (induction xs arbitrary: it w)
  case Nil
  have "w\<lparr>nsLookups := nsLookups w @ replicate (length []) nid,
          adminCalls := adminCalls w @ map fst [],
          deliveries := deliveries w @ run_requests nid wid rid []\<rparr> = w"
    by simp
  with Nil.prems(3) Nil.prems(2) show ?case
    by (intro exI[of _ it]) (simp add: next_token_def)
next
  case (Cons x xs)
  obtain q p where x: "x = (q, p)" by (cases x)
  let ?F = "getPaginationFn n nid wid rid s sv e ev"
  from Cons.prems(1) obtain nm where
    ns: "namespaceCache n (nsLookups w) nid = Inr nm"
    and q: "q = history_request n nm wid rid s sv e ev (pageToken it)"
    and ad: "adminClient n (adminCalls w) q = Inr p"
    and tk: "xs = [] \<or> Resp_NextPageToken p \<noteq> []"
    and rest: "served n nid wid rid s sv e ev (nsLookups w @ [nid]) (adminCalls w @ [q])
                 (Resp_NextPageToken p) xs"
    by (auto simp: x split: sum.splits)
  let ?w1 = "w\<lparr>nsLookups := nsLookups w @ [nid], adminCalls := adminCalls w @ [q],
               deliveries := deliveries w @ page_requests nid wid rid p\<rparr>"
  from Cons.prems(4) have acc1: "accepted (historyReplicationFn n) (deliveries w)
       (page_requests nid wid rid p)"
    and acc2: "accepted (historyReplicationFn n) (deliveries ?w1)
       (run_requests nid wid rid xs)"
    by (simp_all add: x accepted_append)
  have more: "Resp_HistoryBatches p \<noteq> [] \<or> Resp_NextPageToken p \<noteq> []"
    using Cons.prems(5) tk by (auto simp: x)
  have step: "SendSingleWorkflowHistory_loop n nid wid rid ?F it w
      = SendSingleWorkflowHistory_loop n nid wid rid ?F (after_page p) ?w1"
    using loop_page[OF Cons.prems(2) Cons.prems(3) ns ad[unfolded q] more acc1] q by simp
  show ?case
  proof (cases "xs = []")
    case True
    show ?thesis
      using step True
      by (intro exI[of _ "after_page p"]) (simp add: x after_page_def next_token_def)
  next
    case False
    with tk have tp: "Resp_NextPageToken p \<noteq> []" by simp
    have ex1: "\<not> cursor (after_page p) < length (pageItems (after_page p))"
      by (simp add: after_page_def)
    have nf1: "\<not> finished (after_page p)" using tp by (simp add: after_page_def)
    have srv1: "served n nid wid rid s sv e ev (nsLookups ?w1) (adminCalls ?w1)
        (pageToken (after_page p)) xs"
      using rest by (simp add: after_page_def)
    have last1: "xs = [] \<or> Resp_HistoryBatches (snd (last xs)) \<noteq> []
           \<or> Resp_NextPageToken (snd (last xs)) \<noteq> []"
      using Cons.prems(5) False by simp
    from Cons.IH[OF srv1 ex1 nf1 acc2 last1] obtain it' where
      a: "SendSingleWorkflowHistory_loop n nid wid rid ?F (after_page p) ?w1
          = SendSingleWorkflowHistory_loop n nid wid rid ?F it'
              (?w1\<lparr>nsLookups := nsLookups ?w1 @ replicate (length xs) nid,
                    adminCalls := adminCalls ?w1 @ map fst xs,
                    deliveries := deliveries ?w1
                       @ run_requests nid wid rid xs\<rparr>)"
      and b: "\<not> cursor it' < length (pageItems it')"
      and c: "pageToken it' = next_token (pageToken (after_page p)) xs"
      and d: "finished it' = (xs \<noteq> [] \<and> Resp_NextPageToken (snd (last xs)) = [])"
      by blast
    show ?thesis
      using step a b c d False
      by (intro exI[of _ it']) (simp add: x next_token_def replicate_app_Cons_same)
  qed
qed

lemma New_exhausted: "\<not> cursor (NewPagingIterator :: historyBatch PagingIterator) < length (pageItems (NewPagingIterator :: historyBatch PagingIterator))"
  and New_unfinished: "\<not> finished (NewPagingIterator :: historyBatch PagingIterator)"
  and New_token: "pageToken (NewPagingIterator :: historyBatch PagingIterator) = []"
  by (simp_all add: NewPagingIterator_def)

lemma resend_pages:
  assumes "served n nid wid rid s sv e ev (nsLookups w) (adminCalls w) [] xs"
    and "accepted (historyReplicationFn n) (deliveries w) (run_requests nid wid rid xs)"
    and "xs = [] \<or> Resp_HistoryBatches (snd (last xs)) \<noteq> []
           \<or> Resp_NextPageToken (snd (last xs)) \<noteq> []"
  shows "\<exists>it'. SendSingleWorkflowHistory n nid wid rid s sv e ev w
             = SendSingleWorkflowHistory_loop n nid wid rid
                 (getPaginationFn n nid wid rid s sv e ev) it'
                 (w\<lparr>nsLookups := nsLookups w @ replicate (length xs) nid,
                    adminCalls := adminCalls w @ map fst xs,
                    deliveries := deliveries w @ run_requests nid wid rid xs\<rparr>)
           \<and> \<not> cursor it' < length (pageItems it')
           \<and> pageToken it' = next_token [] xs
           \<and> finished it' = (xs \<noteq> [] \<and> Resp_NextPageToken (snd (last xs)) = [])"
proof -
  have srv: "served n nid wid rid s sv e ev (nsLookups w) (adminCalls w)
      (pageToken (NewPagingIterator :: historyBatch PagingIterator)) xs"
    using assms(1) by (simp add: New_token)
  from loop_pages[OF srv New_exhausted New_unfinished assms(2) assms(3)]
  show ?thesis by (simp add: SendSingleWorkflowHistory_def New_token)
qed

subsection \<open>Where delivered requests come from\<close>

lemma fetched_page_append:
  "fetched_page n k A i = Some p \<Longrightarrow> fetched_page n k (A @ B) i = Some p"
  by (auto simp: fetched_page_def nth_append split: if_splits sum.splits)

lemma fetched_page_last:
  "k \<le> length A \<Longrightarrow> adminClient n A q = Inr p \<Longrightarrow> fetched_page n k (A @ [q]) (length A) = Some p"
  by (simp add: fetched_page_def)

lemma item_fetched_append:
  assumes "item_fetched n k A b"
  shows "item_fetched n k (A @ B) b"
proof -
  from assms obtain i p where i: "i < length A" and p: "fetched_page n k A i = Some p"
    and f: "item_from_page p b"
    unfolding item_fetched_def by (auto split: option.splits)
  from fetched_page_append[OF p, of B] f i show ?thesis
    unfolding item_fetched_def by (intro bexI[of _ i]) simp_all
qed

lemma request_fetched_append:
  assumes "request_fetched n k A d"
  shows "request_fetched n k (A @ B) d"
proof -
  from assms obtain i p where i: "i < length A" and p: "fetched_page n k A i = Some p"
    and f: "request_from_page p d"
    unfolding request_fetched_def by (auto split: option.splits)
  from fetched_page_append[OF p, of B] f i show ?thesis
    unfolding request_fetched_def by (intro bexI[of _ i]) simp_all
qed

lemma item_fetched_request:
  "item_fetched n k A b \<Longrightarrow> request_fetched n k A (batch_request nid wid rid b)"
  unfolding item_fetched_def request_fetched_def
  by (auto simp: item_from_page_def request_from_page_def batch_request_def split: option.splits)

lemma page_items_fetched:
  assumes "k \<le> length A" and "adminClient n A q = Inr p" and "b \<in> set (page_items p)"
  shows "item_fetched n k (A @ [q]) b"
proof -
  have "item_from_page p b" using assms(3) by (auto simp: page_items_def item_from_page_def)
  with fetched_page_last[OF assms(1) assms(2)] show ?thesis
    unfolding item_fetched_def by (intro bexI[of _ "length A"]) simp_all
qed

lemma request_ok_append:
  "request_ok n k nid wid rid A d \<Longrightarrow> request_ok n k nid wid rid (A @ B) d"
  by (simp add: request_ok_def request_fetched_append)

lemma extends_append:
  "take (length A) A' = A \<Longrightarrow> length A \<le> length A' \<Longrightarrow> \<exists>B. A' = A @ B"
  by (metis append_take_drop_id)

text \<open>
  Both invariants follow the recursion of the partial functions: whatever \<open>Next\<close> and
  the loop return, they return it with the trace extended and the provenance kept.
\<close>

lemma Next_inv:
  assumes run: "Next F it w = Some y"
    and F: "F = getPaginationFn n nid wid rid s sv e ev"
    and k: "k \<le> length (adminCalls w)"
    and inv: "list_all (item_fetched n k (adminCalls w)) (pageItems it)"
  shows "Next_post n k w y"
proof -
  let ?G = "getPaginationFn n nid wid rid s sv e ev"
  have "F = ?G \<longrightarrow> k \<le> length (adminCalls w)
        \<longrightarrow> list_all (item_fetched n k (adminCalls w)) (pageItems it) \<longrightarrow> Next_post n k w y"
  proof (rule Next.raw_induct[where P="\<lambda>F it w y. F = ?G \<longrightarrow> k \<le> length (adminCalls w)
        \<longrightarrow> list_all (item_fetched n k (adminCalls w)) (pageItems it) \<longrightarrow> Next_post n k w y",
        OF _ run])
    fix Nx :: "(bytes \<Rightarrow> trace \<Rightarrow> (error + historyBatch list \<times> bytes) \<times> trace)
        \<Rightarrow> historyBatch PagingIterator \<Rightarrow> trace
        \<Rightarrow> ((error + historyBatch) \<times> historyBatch PagingIterator \<times> trace) option"
    fix F it w y
    assume IH: "\<And>F it w y. Nx F it w = Some y \<Longrightarrow>
        F = ?G \<longrightarrow> k \<le> length (adminCalls w)
        \<longrightarrow> list_all (item_fetched n k (adminCalls w)) (pageItems it) \<longrightarrow> Next_post n k w y"
    assume body: "(if cursor it < length (pageItems it)
      then Some (Inr (pageItems it ! cursor it), it\<lparr>cursor := cursor it + 1\<rparr>, w)
      else if \<not> finished it
           then case F (pageToken it) w of
                (Inl err, w') \<Rightarrow> Some (Inl err, it, w')
                | (Inr (items, tok), w') \<Rightarrow>
                    Nx F (it\<lparr>pageItems := items, cursor := 0, pageToken := tok,
                           finished := tok = []\<rparr>) w'
           else Some (Inl IteratorContractError, it, w)) = Some y"
    show "F = ?G \<longrightarrow> k \<le> length (adminCalls w)
        \<longrightarrow> list_all (item_fetched n k (adminCalls w)) (pageItems it) \<longrightarrow> Next_post n k w y"
    proof (intro impI)
      assume F: "F = ?G" and k: "k \<le> length (adminCalls w)"
        and inv: "list_all (item_fetched n k (adminCalls w)) (pageItems it)"
      show "Next_post n k w y"
      proof (cases "cursor it < length (pageItems it)")
        case True
        with body have y: "y = (Inr (pageItems it ! cursor it), it\<lparr>cursor := cursor it + 1\<rparr>, w)"
          by simp
        from True inv have "item_fetched n k (adminCalls w) (pageItems it ! cursor it)"
          by (simp add: list_all_length)
        with inv show ?thesis by (simp add: y Next_post_def)
      next
        case False
        show ?thesis
        proof (cases "finished it")
          case True
          with False body have "y = (Inl IteratorContractError, it, w)" by simp
          with inv show ?thesis by (simp add: Next_post_def)
        next
          case nf: False
          obtain r w1 where fw: "?G (pageToken it) w = (r, w1)" by (cases "?G (pageToken it) w")
          from fetch_cases[OF fw] have dl: "deliveries w1 = deliveries w"
            and cs: "(\<exists>err. r = Inl err \<and> (adminCalls w1 = adminCalls w
                         \<or> (\<exists>q. adminCalls w1 = adminCalls w @ [q])))
                \<or> (\<exists>q p. r = Inr (page_items p, Resp_NextPageToken p)
                      \<and> adminClient n (adminCalls w) q = Inr p
                      \<and> adminCalls w1 = adminCalls w @ [q])"
            by blast+
          from cs show ?thesis
          proof (elim disjE exE conjE)
            fix err assume r: "r = Inl err" and a: "adminCalls w1 = adminCalls w"
            from body False nf fw F r have "y = (Inl err, it, w1)" by simp
            with inv dl a show ?thesis by (simp add: Next_post_def)
          next
            fix err q assume r: "r = Inl err" and a: "adminCalls w1 = adminCalls w @ [q]"
            from body False nf fw F r have y: "y = (Inl err, it, w1)" by simp
            from inv have "list_all (item_fetched n k (adminCalls w @ [q])) (pageItems it)"
              by (auto simp: list_all_iff intro: item_fetched_append)
            with dl a show ?thesis by (simp add: y Next_post_def)
          next
            fix q p assume r: "r = Inr (page_items p, Resp_NextPageToken p)"
              and ad: "adminClient n (adminCalls w) q = Inr p"
              and a: "adminCalls w1 = adminCalls w @ [q]"
            let ?it1 = "it\<lparr>pageItems := page_items p, cursor := 0,
                pageToken := Resp_NextPageToken p, finished := Resp_NextPageToken p = []\<rparr>"
            from body False nf fw F r have nx: "Nx F ?it1 w1 = Some y" by simp
            have k1: "k \<le> length (adminCalls w1)" using k a by simp
            have inv1: "list_all (item_fetched n k (adminCalls w1)) (pageItems ?it1)"
              using page_items_fetched[OF k ad] by (simp add: a list_all_iff)
            from IH[OF nx] F k1 inv1 have post: "Next_post n k w1 y" by blast
            obtain r' it' w' where y: "y = (r', it', w')" by (cases y)
            from post have t: "take (length (adminCalls w1)) (adminCalls w') = adminCalls w1"
              and l: "length (adminCalls w1) \<le> length (adminCalls w')"
              and rest: "deliveries w' = deliveries w1"
                 "list_all (item_fetched n k (adminCalls w')) (pageItems it')"
                 "case r' of Inl err \<Rightarrow> True | Inr b \<Rightarrow> item_fetched n k (adminCalls w') b"
              by (simp_all add: y Next_post_def)
            from extends_append[OF t l] obtain B where B: "adminCalls w' = adminCalls w1 @ B" ..
            show ?thesis using rest dl by (simp add: y Next_post_def B a)
          qed
        qed
      qed
    qed
  qed
  with F k inv show ?thesis by blast
qed

lemma loop_inv:
  assumes run: "SendSingleWorkflowHistory_loop n nid wid rid F it w = Some y"
    and F: "F = getPaginationFn n nid wid rid s sv e ev"
    and k: "k \<le> length (adminCalls w)"
    and inv: "list_all (item_fetched n k (adminCalls w)) (pageItems it)"
  shows "loop_post n k nid wid rid w y"
proof -
  let ?P = "\<lambda>n nid wid rid F (it :: historyBatch PagingIterator) w y.
      F = getPaginationFn n nid wid rid s sv e ev \<longrightarrow> k \<le> length (adminCalls w)
        \<longrightarrow> list_all (item_fetched n k (adminCalls w)) (pageItems it)
        \<longrightarrow> loop_post n k nid wid rid w y"
  have "?P n nid wid rid F it w y"
  proof (rule SendSingleWorkflowHistory_loop.raw_induct[where P="?P", OF _ run])
    fix Lp :: "NDCHistoryResenderImpl \<Rightarrow> string \<Rightarrow> string \<Rightarrow> string
        \<Rightarrow> (bytes \<Rightarrow> trace \<Rightarrow> (error + historyBatch list \<times> bytes) \<times> trace)
        \<Rightarrow> historyBatch PagingIterator \<Rightarrow> trace \<Rightarrow> (error option \<times> trace) option"
    fix n nid wid rid F it w y
    assume IH: "\<And>n nid wid rid F it w y. Lp n nid wid rid F it w = Some y
        \<Longrightarrow> ?P n nid wid rid F it w y"
    assume body: "(if \<not> HasNext it then Some (None, w)
      else case Next F it w of None \<Rightarrow> None
           | Some (Inl err, it', w') \<Rightarrow>
               Some (Some err,
                 w'\<lparr>logs := logs w' @
                      [\<lparr>msg = ''failed to get history events'',
                          tags = [WorkflowNamespaceID nid, WorkflowID wid, WorkflowRunID rid,
                             TagError err]\<rparr>]\<rparr>)
           | Some (Inr historyBatch, it', w') \<Rightarrow>
               let replicationRequest =
                     createReplicationRawRequest nid wid rid (rawEventBatch historyBatch)
                      (GetItems (versionHistory historyBatch))
               in case sendReplicationRawRequest n replicationRequest w' of
                  (None, w'') \<Rightarrow> Lp n nid wid rid F it' w''
                  | (Some err, w'') \<Rightarrow>
                      Some (Some err,
                        w''\<lparr>logs := logs w'' @
                              [\<lparr>msg = ''failed to replicate events'',
                                  tags = [WorkflowNamespaceID nid, WorkflowID wid,
                                     WorkflowRunID rid, TagError err]\<rparr>]\<rparr>)) = Some y"
    show "?P n nid wid rid F it w y"
    proof (intro impI)
      assume F: "F = getPaginationFn n nid wid rid s sv e ev"
        and k: "k \<le> length (adminCalls w)"
        and inv: "list_all (item_fetched n k (adminCalls w)) (pageItems it)"
      show "loop_post n k nid wid rid w y"
      proof (cases "HasNext it")
        case False
        with body have "y = (None, w)" by simp
        then show ?thesis by (simp add: loop_post_def)
      next
        case True
        with body obtain r it' w1 where nx: "Next F it w = Some (r, it', w1)"
          by (cases "Next F it w") auto
        from Next_inv[OF nx F k inv]
        have t1: "take (length (adminCalls w)) (adminCalls w1) = adminCalls w"
          and l1: "length (adminCalls w) \<le> length (adminCalls w1)"
          and d1: "deliveries w1 = deliveries w"
          and i1: "list_all (item_fetched n k (adminCalls w1)) (pageItems it')"
          and r1: "case r of Inl err \<Rightarrow> True | Inr b \<Rightarrow> item_fetched n k (adminCalls w1) b"
          by (simp_all add: Next_post_def)
        show ?thesis
        proof (cases r)
          case (Inl err)
          with body True nx have
            "y = (Some err, w1\<lparr>logs := logs w1 @
                      [\<lparr>msg = ''failed to get history events'',
                          tags = [WorkflowNamespaceID nid, WorkflowID wid, WorkflowRunID rid,
                             TagError err]\<rparr>]\<rparr>)"
            by simp
          with t1 l1 d1 show ?thesis by (simp add: loop_post_def)
        next
          case (Inr b)
          let ?d = "batch_request nid wid rid b"
          let ?w2 = "w1\<lparr>deliveries := deliveries w1 @ [?d]\<rparr>"
          have cr: "createReplicationRawRequest nid wid rid (rawEventBatch b)
              (GetItems (versionHistory b)) = ?d"
            by (simp add: createReplicationRawRequest_def batch_request_def)
          from r1 Inr have "item_fetched n k (adminCalls w1) b" by simp
          then have ok: "request_ok n k nid wid rid (adminCalls w1) ?d"
            using item_fetched_request[of n k "adminCalls w1" b nid wid rid]
            by (simp add: request_ok_def batch_request_def)
          show ?thesis
          proof (cases "historyReplicationFn n (deliveries w1) ?d")
            case (Some err)
            with body True nx Inr cr have
              "y = (Some err, ?w2\<lparr>logs := logs ?w2 @
                              [\<lparr>msg = ''failed to replicate events'',
                                  tags = [WorkflowNamespaceID nid, WorkflowID wid,
                                     WorkflowRunID rid, TagError err]\<rparr>]\<rparr>)"
              by (simp add: sendReplicationRawRequest_def)
            with t1 l1 d1 ok show ?thesis by (simp add: loop_post_def)
          next
            case None
            with body True nx Inr cr have lp: "Lp n nid wid rid F it' ?w2 = Some y"
              by (simp add: sendReplicationRawRequest_def)
            have k2: "k \<le> length (adminCalls ?w2)" using k l1 by simp
            have i2: "list_all (item_fetched n k (adminCalls ?w2)) (pageItems it')"
              using i1 by simp
            from IH[OF lp] F k2 i2 have post: "loop_post n k nid wid rid ?w2 y" by blast
            obtain r' w' where y: "y = (r', w')" by (cases y)
            from post have
              td: "take (Suc (length (deliveries w))) (deliveries w') = deliveries w @ [?d]"
              and ld: "Suc (length (deliveries w)) \<le> length (deliveries w')"
              and ta: "take (length (adminCalls w1)) (adminCalls w') = adminCalls w1"
              and la: "length (adminCalls w1) \<le> length (adminCalls w')"
              and al: "list_all (request_ok n k nid wid rid (adminCalls w'))
                   (drop (Suc (length (deliveries w))) (deliveries w'))"
              by (simp_all add: y loop_post_def d1)
            from extends_append[OF ta la] obtain B where B: "adminCalls w' = adminCalls w1 @ B" ..
            from extends_append[OF t1 l1] obtain B1 where B1: "adminCalls w1 = adminCalls w @ B1" ..
            from td ld obtain ds where ds: "deliveries w' = (deliveries w @ [?d]) @ ds"
              by (metis append_take_drop_id)
            have ok': "request_ok n k nid wid rid (adminCalls w') ?d"
              using request_ok_append[OF ok, of B] by (simp add: B)
            have al': "list_all (request_ok n k nid wid rid (adminCalls w')) ds"
              using al by (simp add: ds)
            show ?thesis
              using ok' al' by (simp add: y loop_post_def ds B B1)
          qed
        qed
      qed
    qed
  qed
  with F k inv show ?thesis by blast
qed

lemma resend_inv:
  assumes "SendSingleWorkflowHistory n nid wid rid s sv e ev w = Some (r, w')"
  shows "loop_post n (length (adminCalls w)) nid wid rid w (r, w')"
proof -
  have inv: "list_all (item_fetched n (length (adminCalls w)) (adminCalls w))
      (pageItems (NewPagingIterator :: historyBatch PagingIterator))"
    by (simp add: NewPagingIterator_def)
  from loop_inv[OF assms[unfolded SendSingleWorkflowHistory_def] refl le_refl inv]
  show ?thesis .
qed

lemma scenario_run:
  "SendSingleWorkflowHistory scenario_resender ''ns-id'' ''wf'' ''run'' 1 0 100 0 empty_trace
     = Some (None,
         \<lparr>nsLookups = [''ns-id'', ''ns-id''],
          adminCalls = [scenario_request [], scenario_request ''T1''],
          deliveries =
            [\<lparr>NamespaceId = ''ns-id'',
              WorkflowExecution = \<lparr>WorkflowId = ''wf'', RunId = ''run''\<rparr>,
              Events = blob ''A'',
              VersionHistoryItems = [\<lparr>EventId = 1, ItemVersion = 0\<rparr>]\<rparr>,
             \<lparr>NamespaceId = ''ns-id'',
              WorkflowExecution = \<lparr>WorkflowId = ''wf'', RunId = ''run''\<rparr>,
              Events = blob ''B'',
              VersionHistoryItems =
                [\<lparr>EventId = 50, ItemVersion = 0\<rparr>, \<lparr>EventId = 100, ItemVersion = 0\<rparr>]\<rparr>],
          logs = []\<rparr>)"
  by (simp add: run_defs scenario_defs)

subsection \<open>A run that succeeds\<close>

text \<open>
  Claim C1, as amended. Let the source serve the range in the \<open>k\<close> pages \<open>xs\<close>, every
  fetch succeeding, the last page without a token and with at least one raw batch, and
  let the delivery function accept every request. Then \<^verbatim>\<open>SendSingleWorkflowHistory\<close>
  returns no error, fetches exactly \<open>k\<close> times and logs nothing, and it invokes the
  delivery function exactly once per raw batch: the requests of the first page first, in
  the order in which the pages were returned, and within a page in the order of its
  batches. The number of invocations is the sum of the numbers of batches of the pages;
  it is \<open>k\<close> when every page carries exactly one batch.
\<close>

theorem C1_once_per_batch:
  assumes "served n nid wid rid s sv e ev (nsLookups w) (adminCalls w) [] xs"
    and "xs \<noteq> []"
    and "Resp_NextPageToken (snd (last xs)) = []"
    and "Resp_HistoryBatches (snd (last xs)) \<noteq> []"
    and "accepted (historyReplicationFn n) (deliveries w) (run_requests nid wid rid xs)"
  shows "SendSingleWorkflowHistory n nid wid rid s sv e ev w
           = Some (None,
                   w\<lparr>nsLookups := nsLookups w @ replicate (length xs) nid,
                      adminCalls := adminCalls w @ map fst xs,
                      deliveries := deliveries w @ run_requests nid wid rid xs\<rparr>)
       \<and> length (run_requests nid wid rid xs)
           = sum_list (map (\<lambda>x. length (Resp_HistoryBatches (snd x))) xs)
       \<and> ((\<forall>x\<in>set xs. length (Resp_HistoryBatches (snd x)) = 1)
            \<longrightarrow> length (run_requests nid wid rid xs) = length xs)"
proof -
  have l: "xs = [] \<or> Resp_HistoryBatches (snd (last xs)) \<noteq> []
           \<or> Resp_NextPageToken (snd (last xs)) \<noteq> []"
    using assms(4) by simp
  from resend_pages[OF assms(1) assms(5) l] obtain it' where
    a: "SendSingleWorkflowHistory n nid wid rid s sv e ev w
             = SendSingleWorkflowHistory_loop n nid wid rid
                 (getPaginationFn n nid wid rid s sv e ev) it'
                 (w\<lparr>nsLookups := nsLookups w @ replicate (length xs) nid,
                    adminCalls := adminCalls w @ map fst xs,
                    deliveries := deliveries w @ run_requests nid wid rid xs\<rparr>)"
    and b: "\<not> cursor it' < length (pageItems it')"
    and d: "finished it' = (xs \<noteq> [] \<and> Resp_NextPageToken (snd (last xs)) = [])"
    by blast
  from b d assms(2) assms(3) have "\<not> HasNext it'" by (simp add: HasNext_def)
  from loop_done[OF this] a have 1: "SendSingleWorkflowHistory n nid wid rid s sv e ev w
           = Some (None,
                   w\<lparr>nsLookups := nsLookups w @ replicate (length xs) nid,
                      adminCalls := adminCalls w @ map fst xs,
                      deliveries := deliveries w @ run_requests nid wid rid xs\<rparr>)"
    by simp
  show ?thesis
    using 1 length_run_requests[of nid wid rid xs] length_run_requests_single[of xs nid wid rid]
    by blast
qed

theorem C1_once_per_batch_witness:
  "served scenario_resender ''ns-id'' ''wf'' ''run'' 1 0 100 0 [] [] []
     [(scenario_request [], scenario_pageA), (scenario_request ''T1'', scenario_pageB)]
   \<and> accepted (historyReplicationFn scenario_resender) []
       (run_requests ''ns-id'' ''wf'' ''run''
          [(scenario_request [], scenario_pageA), (scenario_request ''T1'', scenario_pageB)])
   \<and> SendSingleWorkflowHistory scenario_resender ''ns-id'' ''wf'' ''run'' 1 0 100 0 empty_trace
       = Some (None,
           \<lparr>nsLookups = [''ns-id'', ''ns-id''],
            adminCalls = [scenario_request [], scenario_request ''T1''],
            deliveries =
              [\<lparr>NamespaceId = ''ns-id'',
                WorkflowExecution = \<lparr>WorkflowId = ''wf'', RunId = ''run''\<rparr>,
                Events = blob ''A'',
                VersionHistoryItems = [\<lparr>EventId = 1, ItemVersion = 0\<rparr>]\<rparr>,
               \<lparr>NamespaceId = ''ns-id'',
                WorkflowExecution = \<lparr>WorkflowId = ''wf'', RunId = ''run''\<rparr>,
                Events = blob ''B'',
                VersionHistoryItems =
                  [\<lparr>EventId = 50, ItemVersion = 0\<rparr>, \<lparr>EventId = 100, ItemVersion = 0\<rparr>]\<rparr>],
            logs = []\<rparr>)"
proof -
  let ?xs = "[(scenario_request [], scenario_pageA), (scenario_request ''T1'', scenario_pageB)]"
  have h1: "served scenario_resender ''ns-id'' ''wf'' ''run'' 1 0 100 0
      (nsLookups empty_trace) (adminCalls empty_trace) [] ?xs"
    by (simp add: scenario_defs empty_trace_def)
  have h2: "?xs \<noteq> []" by simp
  have h3: "Resp_NextPageToken (snd (last ?xs)) = []" by (simp add: scenario_defs)
  have h4: "Resp_HistoryBatches (snd (last ?xs)) \<noteq> []" by (simp add: scenario_defs)
  have h5: "accepted (historyReplicationFn scenario_resender) (deliveries empty_trace)
      (run_requests ''ns-id'' ''wf'' ''run'' ?xs)"
    by (simp add: scenario_defs empty_trace_def)
  from C1_once_per_batch[OF h1 h2 h3 h4 h5] h1 h5 show ?thesis
    by (simp add: scenario_defs empty_trace_def GetItems_def)
qed

text \<open>
  Claim C1 as it is stated fails where a page carries more than one batch: the source
  serves the range in one page, every fetch and every dispatch succeeds, and the delivery
  function is invoked twice.
\<close>

theorem C1_counterexample:
  "served two_batch_resender ''ns-id'' ''wf'' ''run'' 1 0 100 0 [] [] []
     [(scenario_request [], two_batch_page [])]
   \<and> Resp_NextPageToken (two_batch_page []) = []
   \<and> accepted (historyReplicationFn two_batch_resender) []
       (page_requests ''ns-id'' ''wf'' ''run'' (two_batch_page []))
   \<and> SendSingleWorkflowHistory two_batch_resender ''ns-id'' ''wf'' ''run'' 1 0 100 0 empty_trace
       = Some (None,
           \<lparr>nsLookups = [''ns-id''],
            adminCalls = [scenario_request []],
            deliveries = page_requests ''ns-id'' ''wf'' ''run'' (two_batch_page []),
            logs = []\<rparr>)
   \<and> length (page_requests ''ns-id'' ''wf'' ''run'' (two_batch_page [])) = 2
   \<and> length [(scenario_request [], two_batch_page [])] = 1"
  by (simp add: run_defs scenario_defs two_batch_resender_def)

subsection \<open>A fetch that fails\<close>

text \<open>
  Claim C2, as amended. Let the source serve the pages \<open>xs\<close>, each with a token, and
  fail with \<open>err\<close> on the page that follows them (page \<open>length xs + 1\<close>), the namespace
  resolving and the delivery function accepting every request of \<open>xs\<close>. Then
  \<^verbatim>\<open>SendSingleWorkflowHistory\<close> returns \<open>err\<close> itself, unchanged; the delivery function
  has been invoked exactly once per raw batch of the pages \<open>xs\<close>, which is \<open>length xs\<close>
  times when each of these pages carries exactly one batch; and the error is logged by
  \<^verbatim>\<open>getHistory\<close> and by the entry point.
\<close>

theorem C2_source_failure:
  assumes "served n nid wid rid s sv e ev (nsLookups w) (adminCalls w) [] xs"
    and "xs = [] \<or> Resp_NextPageToken (snd (last xs)) \<noteq> []"
    and "namespaceCache n (nsLookups w @ replicate (length xs) nid) nid = Inr nm"
    and "adminClient n (adminCalls w @ map fst xs)
           (history_request n nm wid rid s sv e ev (next_token [] xs)) = Inl err"
    and "accepted (historyReplicationFn n) (deliveries w) (run_requests nid wid rid xs)"
  shows "SendSingleWorkflowHistory n nid wid rid s sv e ev w
           = Some (Some err,
                   w\<lparr>nsLookups := nsLookups w @ replicate (Suc (length xs)) nid,
                      adminCalls := adminCalls w @ map fst xs
                         @ [history_request n nm wid rid s sv e ev (next_token [] xs)],
                      deliveries := deliveries w @ run_requests nid wid rid xs,
                      logs := logs w
                         @ [\<lparr>msg = ''error getting history'',
                              tags = [WorkflowRunID rid, TagError err]\<rparr>,
                            \<lparr>msg = ''failed to get history events'',
                              tags = [WorkflowNamespaceID nid, WorkflowID wid,
                                      WorkflowRunID rid, TagError err]\<rparr>]\<rparr>)
       \<and> length (run_requests nid wid rid xs)
           = sum_list (map (\<lambda>x. length (Resp_HistoryBatches (snd x))) xs)
       \<and> ((\<forall>x\<in>set xs. length (Resp_HistoryBatches (snd x)) = 1)
            \<longrightarrow> length (run_requests nid wid rid xs) = length xs)"
proof -
  let ?F = "getPaginationFn n nid wid rid s sv e ev"
  let ?w1 = "w\<lparr>nsLookups := nsLookups w @ replicate (length xs) nid,
                    adminCalls := adminCalls w @ map fst xs,
                    deliveries := deliveries w @ run_requests nid wid rid xs\<rparr>"
  have l: "xs = [] \<or> Resp_HistoryBatches (snd (last xs)) \<noteq> []
           \<or> Resp_NextPageToken (snd (last xs)) \<noteq> []"
    using assms(2) by blast
  from resend_pages[OF assms(1) assms(5) l] obtain it' where
    a: "SendSingleWorkflowHistory n nid wid rid s sv e ev w
             = SendSingleWorkflowHistory_loop n nid wid rid ?F it' ?w1"
    and b: "\<not> cursor it' < length (pageItems it')"
    and c: "pageToken it' = next_token [] xs"
    and d: "finished it' = (xs \<noteq> [] \<and> Resp_NextPageToken (snd (last xs)) = [])"
    by blast
  from d assms(2) have nf: "\<not> finished it'" by auto
  have ns: "namespaceCache n (nsLookups ?w1) nid = Inr nm" using assms(3) by simp
  have ad: "adminClient n (adminCalls ?w1)
      (history_request n nm wid rid s sv e ev (pageToken it')) = Inl err"
    using assms(4) c by simp
  from loop_fetch_err[where F="?F" and it=it' and w="?w1", OF b nf fetch_admin_err[OF ns ad]] a
  have 1: "SendSingleWorkflowHistory n nid wid rid s sv e ev w
           = Some (Some err,
                   w\<lparr>nsLookups := nsLookups w @ replicate (Suc (length xs)) nid,
                      adminCalls := adminCalls w @ map fst xs
                         @ [history_request n nm wid rid s sv e ev (next_token [] xs)],
                      deliveries := deliveries w @ run_requests nid wid rid xs,
                      logs := logs w
                         @ [\<lparr>msg = ''error getting history'',
                              tags = [WorkflowRunID rid, TagError err]\<rparr>,
                            \<lparr>msg = ''failed to get history events'',
                              tags = [WorkflowNamespaceID nid, WorkflowID wid,
                                      WorkflowRunID rid, TagError err]\<rparr>]\<rparr>)"
    by (simp add: c replicate_append_same)
  show ?thesis
    using 1 length_run_requests[of nid wid rid xs] length_run_requests_single[of xs nid wid rid]
    by blast
qed

theorem C2_source_failure_witness:
  "served failing_source_resender ''ns-id'' ''wf'' ''run'' 1 0 100 0 [] [] []
     [(scenario_request [], two_batch_page ''T1'')]
   \<and> adminClient failing_source_resender [scenario_request []] (scenario_request ''T1'')
       = Inl (ServiceError ''unavailable'')
   \<and> SendSingleWorkflowHistory failing_source_resender ''ns-id'' ''wf'' ''run'' 1 0 100 0
         empty_trace
       = Some (Some (ServiceError ''unavailable''),
           \<lparr>nsLookups = [''ns-id'', ''ns-id''],
            adminCalls = [scenario_request [], scenario_request ''T1''],
            deliveries = page_requests ''ns-id'' ''wf'' ''run'' (two_batch_page ''T1''),
            logs = [\<lparr>msg = ''error getting history'',
                     tags = [WorkflowRunID ''run'', TagError (ServiceError ''unavailable'')]\<rparr>,
                    \<lparr>msg = ''failed to get history events'',
                     tags = [WorkflowNamespaceID ''ns-id'', WorkflowID ''wf'',
                             WorkflowRunID ''run'',
                             TagError (ServiceError ''unavailable'')]\<rparr>]\<rparr>)"
proof -
  let ?xs = "[(scenario_request [], two_batch_page ''T1'')]"
  have h1: "served failing_source_resender ''ns-id'' ''wf'' ''run'' 1 0 100 0
      (nsLookups empty_trace) (adminCalls empty_trace) [] ?xs"
    by (simp add: scenario_defs failing_source_resender_def empty_trace_def)
  have h2: "?xs = [] \<or> Resp_NextPageToken (snd (last ?xs)) \<noteq> []" by (simp add: scenario_defs failing_source_resender_def)
  have h3: "namespaceCache failing_source_resender
      (nsLookups empty_trace @ replicate (length ?xs) ''ns-id'') ''ns-id'' = Inr ''ns''"
    by (simp add: scenario_defs failing_source_resender_def)
  have h4: "adminClient failing_source_resender (adminCalls empty_trace @ map fst ?xs)
      (history_request failing_source_resender ''ns'' ''wf'' ''run'' 1 0 100 0 (next_token [] ?xs))
      = Inl (ServiceError ''unavailable'')"
    by (simp add: scenario_defs failing_source_resender_def)
  have h5: "accepted (historyReplicationFn failing_source_resender) (deliveries empty_trace)
      (run_requests ''ns-id'' ''wf'' ''run'' ?xs)"
    by (simp add: scenario_defs failing_source_resender_def empty_trace_def)
  from C2_source_failure[OF h1 h2 h3 h4 h5] h1 h4 show ?thesis
    by (simp add: scenario_defs failing_source_resender_def empty_trace_def)
qed

text \<open>
  Claim C2 as it is stated fails where a page carries more than one batch: the source
  fails on page 2, and the delivery function has been invoked twice, not once.
\<close>

theorem C2_counterexample:
  "served failing_source_resender ''ns-id'' ''wf'' ''run'' 1 0 100 0 [] [] []
     [(scenario_request [], two_batch_page ''T1'')]
   \<and> adminClient failing_source_resender [scenario_request []] (scenario_request ''T1'')
       = Inl (ServiceError ''unavailable'')
   \<and> fst (the (SendSingleWorkflowHistory failing_source_resender ''ns-id'' ''wf'' ''run''
                 1 0 100 0 empty_trace))
       = Some (ServiceError ''unavailable'')
   \<and> length (deliveries (snd (the (SendSingleWorkflowHistory failing_source_resender
                 ''ns-id'' ''wf'' ''run'' 1 0 100 0 empty_trace)))) = 2
   \<and> (2::nat) \<noteq> 2 - 1"
  by (simp add: run_defs scenario_defs failing_source_resender_def)

subsection \<open>The version history of a delivered request\<close>

text \<open>
  Claim C3. Within one page, every batch that the pagination function produces is paired
  with the version history of that page: the items of a fetched page are its raw batches,
  in order, each with the one version history of the response. And whenever
  \<^verbatim>\<open>SendSingleWorkflowHistory\<close> returns, with or without an error, the deliveries made
  before the call are untouched and every request delivered by the call comes from a page
  fetched by the call: its raw batch is one of the batches of that page and its
  version-history items are exactly the version-history items of that page.
\<close>

theorem C3_version_history_of_page:
  "(namespaceCache n (nsLookups w) nid = Inr nm
      \<and> adminClient n (adminCalls w) (history_request n nm wid rid s sv e ev tok) = Inr p
    \<longrightarrow> fst (getPaginationFn n nid wid rid s sv e ev tok w)
          = Inr (map (\<lambda>h. \<lparr>versionHistory = Resp_VersionHistory p, rawEventBatch = h\<rparr>)
                   (Resp_HistoryBatches p),
                 Resp_NextPageToken p))
   \<and> (SendSingleWorkflowHistory n nid wid rid s sv e ev w = Some (r, w')
    \<longrightarrow> take (length (deliveries w)) (deliveries w') = deliveries w
        \<and> (\<forall>d\<in>set (drop (length (deliveries w)) (deliveries w')).
              request_fetched n (length (adminCalls w)) (adminCalls w') d))"
proof (intro conjI impI)
  assume "namespaceCache n (nsLookups w) nid = Inr nm
      \<and> adminClient n (adminCalls w) (history_request n nm wid rid s sv e ev tok) = Inr p"
  then show "fst (getPaginationFn n nid wid rid s sv e ev tok w)
          = Inr (map (\<lambda>h. \<lparr>versionHistory = Resp_VersionHistory p, rawEventBatch = h\<rparr>)
                   (Resp_HistoryBatches p),
                 Resp_NextPageToken p)"
    using fetch_ok[of n w nid nm wid rid s sv e ev tok p] by (simp add: page_items_def)
next
  assume run: "SendSingleWorkflowHistory n nid wid rid s sv e ev w = Some (r, w')"
  from resend_inv[OF run]
  show "take (length (deliveries w)) (deliveries w') = deliveries w"
    by (simp add: loop_post_def)
next
  assume run: "SendSingleWorkflowHistory n nid wid rid s sv e ev w = Some (r, w')"
  from resend_inv[OF run]
  show "\<forall>d\<in>set (drop (length (deliveries w)) (deliveries w')).
          request_fetched n (length (adminCalls w)) (adminCalls w') d"
    by (simp add: loop_post_def list_all_iff request_ok_def)
qed

theorem C3_version_history_of_page_witness:
  "namespaceCache scenario_resender [] ''ns-id'' = Inr ''ns''
   \<and> adminClient scenario_resender [] (scenario_request []) = Inr scenario_pageA
   \<and> fst (getPaginationFn scenario_resender ''ns-id'' ''wf'' ''run'' 1 0 100 0 [] empty_trace)
       = Inr ([\<lparr>versionHistory = Resp_VersionHistory scenario_pageA,
                rawEventBatch = blob ''A''\<rparr>], ''T1'')
   \<and> request_fetched scenario_resender 0 [scenario_request [], scenario_request ''T1'']
        \<lparr>NamespaceId = ''ns-id'',
         WorkflowExecution = \<lparr>WorkflowId = ''wf'', RunId = ''run''\<rparr>,
         Events = blob ''B'',
         VersionHistoryItems =
           [\<lparr>EventId = 50, ItemVersion = 0\<rparr>, \<lparr>EventId = 100, ItemVersion = 0\<rparr>]\<rparr>"
proof -
  have h1: "namespaceCache scenario_resender (nsLookups empty_trace) ''ns-id'' = Inr ''ns''"
    by (simp add: scenario_defs)
  have h2: "adminClient scenario_resender (adminCalls empty_trace)
      (history_request scenario_resender ''ns'' ''wf'' ''run'' 1 0 100 0 []) = Inr scenario_pageA"
    by (simp add: scenario_defs)
  let ?W = "\<lparr>nsLookups = [''ns-id'', ''ns-id''],
          adminCalls = [scenario_request [], scenario_request ''T1''],
          deliveries =
            [\<lparr>NamespaceId = ''ns-id'',
              WorkflowExecution = \<lparr>WorkflowId = ''wf'', RunId = ''run''\<rparr>,
              Events = blob ''A'',
              VersionHistoryItems = [\<lparr>EventId = 1, ItemVersion = 0\<rparr>]\<rparr>,
             \<lparr>NamespaceId = ''ns-id'',
              WorkflowExecution = \<lparr>WorkflowId = ''wf'', RunId = ''run''\<rparr>,
              Events = blob ''B'',
              VersionHistoryItems =
                [\<lparr>EventId = 50, ItemVersion = 0\<rparr>, \<lparr>EventId = 100, ItemVersion = 0\<rparr>]\<rparr>],
          logs = []\<rparr>"
  from C3_version_history_of_page[where n=scenario_resender and w=empty_trace
      and nid="''ns-id''" and nm="''ns''" and wid="''wf''" and rid="''run''"
      and s=1 and sv=0 and e=100 and ev=0 and tok="[]" and p=scenario_pageA
      and r=None and w'="?W"] h1 h2 scenario_run
  have a: "fst (getPaginationFn scenario_resender ''ns-id'' ''wf'' ''run'' 1 0 100 0 [] empty_trace)
       = Inr (map (\<lambda>h. \<lparr>versionHistory = Resp_VersionHistory scenario_pageA, rawEventBatch = h\<rparr>)
                (Resp_HistoryBatches scenario_pageA), Resp_NextPageToken scenario_pageA)"
    and b: "\<forall>d\<in>set (drop (length (deliveries empty_trace)) (deliveries ?W)).
              request_fetched scenario_resender (length (adminCalls empty_trace)) (adminCalls ?W) d"
    by blast+
  from b have "request_fetched scenario_resender 0 [scenario_request [], scenario_request ''T1'']
        \<lparr>NamespaceId = ''ns-id'',
         WorkflowExecution = \<lparr>WorkflowId = ''wf'', RunId = ''run''\<rparr>,
         Events = blob ''B'',
         VersionHistoryItems =
           [\<lparr>EventId = 50, ItemVersion = 0\<rparr>, \<lparr>EventId = 100, ItemVersion = 0\<rparr>]\<rparr>"
    by (simp add: empty_trace_def)
  with a h1 h2 show ?thesis
    by (simp add: empty_trace_def scenario_pageA_def history_request_def scenario_request_def
        scenario_resender_def)
qed

subsection \<open>A delivery that fails\<close>

text \<open>
  Claim C4, as amended. Let the source serve the pages \<open>xs\<close>, each with a token, and
  then the page \<open>p\<close>; let the delivery function accept every request of \<open>xs\<close> and the
  first \<open>j\<close> requests of \<open>p\<close>, and reject the next request of \<open>p\<close> with \<open>err\<close>. Then
  \<^verbatim>\<open>SendSingleWorkflowHistory\<close> returns \<open>err\<close>; the delivery function has been invoked
  once per raw batch up to and including the rejected one, which is \<open>length xs + 1\<close> times,
  the number of the page, when every page carries exactly one batch; no fetch follows the
  failure: the admin calls are those of \<open>xs\<close> and the one of \<open>p\<close>; and the error is
  logged once.
\<close>

theorem C4_delivery_failure:
  assumes "served n nid wid rid s sv e ev (nsLookups w) (adminCalls w) [] xs"
    and "xs = [] \<or> Resp_NextPageToken (snd (last xs)) \<noteq> []"
    and "namespaceCache n (nsLookups w @ replicate (length xs) nid) nid = Inr nm"
    and "adminClient n (adminCalls w @ map fst xs)
           (history_request n nm wid rid s sv e ev (next_token [] xs)) = Inr p"
    and "j < length (Resp_HistoryBatches p)"
    and "accepted (historyReplicationFn n) (deliveries w)
           (run_requests nid wid rid xs @ take j (page_requests nid wid rid p))"
    and "historyReplicationFn n
           (deliveries w @ run_requests nid wid rid xs @ take j (page_requests nid wid rid p))
           (page_requests nid wid rid p ! j) = Some err"
  shows "SendSingleWorkflowHistory n nid wid rid s sv e ev w
           = Some (Some err,
                   w\<lparr>nsLookups := nsLookups w @ replicate (Suc (length xs)) nid,
                      adminCalls := adminCalls w @ map fst xs
                         @ [history_request n nm wid rid s sv e ev (next_token [] xs)],
                      deliveries := deliveries w @ run_requests nid wid rid xs
                         @ take (Suc j) (page_requests nid wid rid p),
                      logs := logs w
                         @ [\<lparr>msg = ''failed to replicate events'',
                              tags = [WorkflowNamespaceID nid, WorkflowID wid,
                                      WorkflowRunID rid, TagError err]\<rparr>]\<rparr>)
       \<and> length (run_requests nid wid rid xs @ take (Suc j) (page_requests nid wid rid p))
           = sum_list (map (\<lambda>x. length (Resp_HistoryBatches (snd x))) xs) + Suc j
       \<and> ((\<forall>x\<in>set xs. length (Resp_HistoryBatches (snd x)) = 1)
              \<and> length (Resp_HistoryBatches p) = 1
            \<longrightarrow> length (run_requests nid wid rid xs @ take (Suc j) (page_requests nid wid rid p))
                  = Suc (length xs))"
proof -
  let ?F = "getPaginationFn n nid wid rid s sv e ev"
  let ?q = "history_request n nm wid rid s sv e ev (next_token [] xs)"
  let ?w1 = "w\<lparr>nsLookups := nsLookups w @ replicate (length xs) nid,
                    adminCalls := adminCalls w @ map fst xs,
                    deliveries := deliveries w @ run_requests nid wid rid xs\<rparr>"
  let ?w2 = "?w1\<lparr>nsLookups := nsLookups ?w1 @ [nid], adminCalls := adminCalls ?w1 @ [?q]\<rparr>"
  let ?it2 = "\<lparr>pageItems = page_items p, cursor = 0, pageToken = Resp_NextPageToken p,
               finished = (Resp_NextPageToken p = [])\<rparr>"
  have l: "xs = [] \<or> Resp_HistoryBatches (snd (last xs)) \<noteq> []
           \<or> Resp_NextPageToken (snd (last xs)) \<noteq> []"
    using assms(2) by blast
  from assms(6) have acc1: "accepted (historyReplicationFn n) (deliveries w) (run_requests nid wid rid xs)"
    and acc2: "accepted (historyReplicationFn n) (deliveries w @ run_requests nid wid rid xs)
        (take j (page_requests nid wid rid p))"
    by (simp_all add: accepted_append)
  from resend_pages[OF assms(1) acc1 l] obtain it' where
    a: "SendSingleWorkflowHistory n nid wid rid s sv e ev w
             = SendSingleWorkflowHistory_loop n nid wid rid ?F it' ?w1"
    and b: "\<not> cursor it' < length (pageItems it')"
    and c: "pageToken it' = next_token [] xs"
    and d: "finished it' = (xs \<noteq> [] \<and> Resp_NextPageToken (snd (last xs)) = [])"
    by blast
  from d assms(2) have nf: "\<not> finished it'" by auto
  have ns: "namespaceCache n (nsLookups ?w1) nid = Inr nm" using assms(3) by simp
  have ad: "adminClient n (adminCalls ?w1)
      (history_request n nm wid rid s sv e ev (pageToken it')) = Inr p"
    using assms(4) c by simp
  have more: "page_items p \<noteq> [] \<or> Resp_NextPageToken p \<noteq> []"
    using assms(5) by (auto simp: page_items_def)
  have 1: "SendSingleWorkflowHistory_loop n nid wid rid ?F it' ?w1
      = SendSingleWorkflowHistory_loop n nid wid rid ?F ?it2 ?w2"
    using loop_fetch_ok[where F="?F" and it=it' and w="?w1", OF b nf fetch_ok[OF ns ad] more]
    by (simp add: c)
  have k: "j < length (pageItems ?it2) - cursor ?it2"
    using assms(5) by (simp add: page_items_def)
  have acc': "accepted (historyReplicationFn n) (deliveries ?w2)
      (map (batch_request nid wid rid) (take j (drop (cursor ?it2) (pageItems ?it2))))"
    using acc2 by (simp add: page_requests_items take_map)
  have rej': "historyReplicationFn n
      (deliveries ?w2 @ map (batch_request nid wid rid)
         (take j (drop (cursor ?it2) (pageItems ?it2))))
      (batch_request nid wid rid (pageItems ?it2 ! (cursor ?it2 + j))) = Some err"
    using assms(7) k by (simp add: page_requests_items take_map)
  have 2: "SendSingleWorkflowHistory n nid wid rid s sv e ev w
           = Some (Some err,
                   w\<lparr>nsLookups := nsLookups w @ replicate (Suc (length xs)) nid,
                      adminCalls := adminCalls w @ map fst xs @ [?q],
                      deliveries := deliveries w @ run_requests nid wid rid xs
                         @ take (Suc j) (page_requests nid wid rid p),
                      logs := logs w
                         @ [\<lparr>msg = ''failed to replicate events'',
                              tags = [WorkflowNamespaceID nid, WorkflowID wid,
                                      WorkflowRunID rid, TagError err]\<rparr>]\<rparr>)"
    unfolding a 1 drain_rejected[where F="?F", OF k acc' rej']
    by (simp add: page_requests_items take_map replicate_append_same)
  have 3: "length (run_requests nid wid rid xs @ take (Suc j) (page_requests nid wid rid p))
           = sum_list (map (\<lambda>x. length (Resp_HistoryBatches (snd x))) xs) + Suc j"
    using assms(5) by (simp add: length_run_requests)
  have 4: "(\<forall>x\<in>set xs. length (Resp_HistoryBatches (snd x)) = 1)
              \<and> length (Resp_HistoryBatches p) = 1
            \<longrightarrow> length (run_requests nid wid rid xs @ take (Suc j) (page_requests nid wid rid p))
                  = Suc (length xs)"
    using assms(5) by (auto simp: length_run_requests_single)
  from 2 3 4 show ?thesis by blast
qed

theorem C4_delivery_failure_witness:
  "namespaceCache failing_sink_resender [] ''ns-id'' = Inr ''ns''
   \<and> adminClient failing_sink_resender [] (scenario_request []) = Inr (two_batch_page [])
   \<and> historyReplicationFn failing_sink_resender
        [page_requests ''ns-id'' ''wf'' ''run'' (two_batch_page []) ! 0]
        (page_requests ''ns-id'' ''wf'' ''run'' (two_batch_page []) ! 1)
       = Some (ServiceError ''rejected'')
   \<and> SendSingleWorkflowHistory failing_sink_resender ''ns-id'' ''wf'' ''run'' 1 0 100 0
         empty_trace
       = Some (Some (ServiceError ''rejected''),
           \<lparr>nsLookups = [''ns-id''],
            adminCalls = [scenario_request []],
            deliveries = page_requests ''ns-id'' ''wf'' ''run'' (two_batch_page []),
            logs = [\<lparr>msg = ''failed to replicate events'',
                     tags = [WorkflowNamespaceID ''ns-id'', WorkflowID ''wf'',
                             WorkflowRunID ''run'',
                             TagError (ServiceError ''rejected'')]\<rparr>]\<rparr>)"
proof -
  let ?xs = "[] :: (GetWorkflowExecutionRawHistoryV2Request
                     \<times> GetWorkflowExecutionRawHistoryV2Response) list"
  let ?p = "two_batch_page []"
  have h1: "served failing_sink_resender ''ns-id'' ''wf'' ''run'' 1 0 100 0
      (nsLookups empty_trace) (adminCalls empty_trace) [] ?xs"
    by simp
  have h2: "?xs = [] \<or> Resp_NextPageToken (snd (last ?xs)) \<noteq> []" by simp
  have h3: "namespaceCache failing_sink_resender
      (nsLookups empty_trace @ replicate (length ?xs) ''ns-id'') ''ns-id'' = Inr ''ns''"
    by (simp add: scenario_defs failing_sink_resender_def)
  have h4: "adminClient failing_sink_resender (adminCalls empty_trace @ map fst ?xs)
      (history_request failing_sink_resender ''ns'' ''wf'' ''run'' 1 0 100 0 (next_token [] ?xs))
      = Inr ?p"
    by (simp add: scenario_defs failing_sink_resender_def)
  have h5: "1 < length (Resp_HistoryBatches ?p)" by (simp add: scenario_defs failing_sink_resender_def)
  have h6: "accepted (historyReplicationFn failing_sink_resender) (deliveries empty_trace)
      (run_requests ''ns-id'' ''wf'' ''run'' ?xs @ take 1 (page_requests ''ns-id'' ''wf'' ''run'' ?p))"
    by (simp add: scenario_defs failing_sink_resender_def empty_trace_def)
  have h7: "historyReplicationFn failing_sink_resender
      (deliveries empty_trace @ run_requests ''ns-id'' ''wf'' ''run'' ?xs
         @ take 1 (page_requests ''ns-id'' ''wf'' ''run'' ?p))
      (page_requests ''ns-id'' ''wf'' ''run'' ?p ! 1) = Some (ServiceError ''rejected'')"
    by (simp add: scenario_defs failing_sink_resender_def empty_trace_def)
  from C4_delivery_failure[OF h1 h2 h3 h4 h5 h6 h7] h3 h4 h7 show ?thesis
    by (simp add: scenario_defs failing_sink_resender_def empty_trace_def)
qed

text \<open>
  Claim C4 as it is stated fails where a page carries more than one batch: the delivery
  function fails on page 1, on the second batch of that page, and has been invoked twice,
  not once. No fetch follows.
\<close>

theorem C4_counterexample:
  "adminClient failing_sink_resender [] (scenario_request []) = Inr (two_batch_page [])
   \<and> historyReplicationFn failing_sink_resender
        [page_requests ''ns-id'' ''wf'' ''run'' (two_batch_page []) ! 0]
        (page_requests ''ns-id'' ''wf'' ''run'' (two_batch_page []) ! 1)
       = Some (ServiceError ''rejected'')
   \<and> fst (the (SendSingleWorkflowHistory failing_sink_resender ''ns-id'' ''wf'' ''run''
                 1 0 100 0 empty_trace))
       = Some (ServiceError ''rejected'')
   \<and> length (adminCalls (snd (the (SendSingleWorkflowHistory failing_sink_resender
                 ''ns-id'' ''wf'' ''run'' 1 0 100 0 empty_trace)))) = 1
   \<and> length (deliveries (snd (the (SendSingleWorkflowHistory failing_sink_resender
                 ''ns-id'' ''wf'' ''run'' 1 0 100 0 empty_trace)))) = 2
   \<and> (2::nat) \<noteq> 1"
  by (simp add: run_defs scenario_defs failing_sink_resender_def)

subsection \<open>The request builder\<close>

text \<open>
  Claim C5. \<^verbatim>\<open>createReplicationRawRequest\<close> is a function of its arguments alone: the
  namespace ID, workflow ID and run ID of the built request are the ones passed in, the
  raw event blob is attached unmodified, and the version-history items are attached
  unmodified. And whenever \<^verbatim>\<open>SendSingleWorkflowHistory\<close> returns, every request delivered
  by the call carries the namespace ID, workflow ID and run ID passed to the entry point.
\<close>

theorem C5_request_builder:
  "NamespaceId (createReplicationRawRequest nid wid rid historyBlob items) = nid
   \<and> WorkflowId (WorkflowExecution (createReplicationRawRequest nid wid rid historyBlob items)) = wid
   \<and> RunId (WorkflowExecution (createReplicationRawRequest nid wid rid historyBlob items)) = rid
   \<and> Events (createReplicationRawRequest nid wid rid historyBlob items) = historyBlob
   \<and> VersionHistoryItems (createReplicationRawRequest nid wid rid historyBlob items) = items
   \<and> (SendSingleWorkflowHistory n nid wid rid s sv e ev w = Some (r, w')
      \<longrightarrow> (\<forall>d\<in>set (drop (length (deliveries w)) (deliveries w')).
             NamespaceId d = nid \<and> WorkflowId (WorkflowExecution d) = wid
             \<and> RunId (WorkflowExecution d) = rid))"
proof -
  have run: "SendSingleWorkflowHistory n nid wid rid s sv e ev w = Some (r, w')
      \<longrightarrow> (\<forall>d\<in>set (drop (length (deliveries w)) (deliveries w')).
             NamespaceId d = nid \<and> WorkflowId (WorkflowExecution d) = wid
             \<and> RunId (WorkflowExecution d) = rid)"
  proof
    assume "SendSingleWorkflowHistory n nid wid rid s sv e ev w = Some (r, w')"
    from resend_inv[OF this]
    show "\<forall>d\<in>set (drop (length (deliveries w)) (deliveries w')).
             NamespaceId d = nid \<and> WorkflowId (WorkflowExecution d) = wid
             \<and> RunId (WorkflowExecution d) = rid"
      by (simp add: loop_post_def list_all_iff request_ok_def)
  qed
  show ?thesis using run by (simp add: createReplicationRawRequest_def)
qed

theorem C5_request_builder_witness:
  "createReplicationRawRequest ''ns-id'' ''wf'' ''run'' (blob ''A'') [\<lparr>EventId = 1, ItemVersion = 0\<rparr>]
     = \<lparr>NamespaceId = ''ns-id'',
        WorkflowExecution = \<lparr>WorkflowId = ''wf'', RunId = ''run''\<rparr>,
        Events = blob ''A'',
        VersionHistoryItems = [\<lparr>EventId = 1, ItemVersion = 0\<rparr>]\<rparr>
   \<and> map NamespaceId (deliveries (snd (the (SendSingleWorkflowHistory scenario_resender
          ''ns-id'' ''wf'' ''run'' 1 0 100 0 empty_trace)))) = [''ns-id'', ''ns-id'']
   \<and> map WorkflowExecution (deliveries (snd (the (SendSingleWorkflowHistory scenario_resender
          ''ns-id'' ''wf'' ''run'' 1 0 100 0 empty_trace))))
       = [\<lparr>WorkflowId = ''wf'', RunId = ''run''\<rparr>, \<lparr>WorkflowId = ''wf'', RunId = ''run''\<rparr>]"
proof -
  obtain r w' where run: "SendSingleWorkflowHistory scenario_resender ''ns-id'' ''wf'' ''run''
      1 0 100 0 empty_trace = Some (r, w')"
    and len: "length (deliveries w') = 2"
    using scenario_run by simp
  from C5_request_builder[where nid="''ns-id''" and wid="''wf''" and rid="''run''"
      and historyBlob="blob ''A''" and items="[\<lparr>EventId = 1, ItemVersion = 0\<rparr>]"
      and n=scenario_resender and s=1 and sv=0 and e=100 and ev=0 and w=empty_trace
      and r=r and w'=w'] run
  have a: "createReplicationRawRequest ''ns-id'' ''wf'' ''run'' (blob ''A'') [\<lparr>EventId = 1, ItemVersion = 0\<rparr>]
     = \<lparr>NamespaceId = ''ns-id'',
        WorkflowExecution = \<lparr>WorkflowId = ''wf'', RunId = ''run''\<rparr>,
        Events = blob ''A'',
        VersionHistoryItems = [\<lparr>EventId = 1, ItemVersion = 0\<rparr>]\<rparr>"
    and b: "\<forall>d\<in>set (deliveries w'). NamespaceId d = ''ns-id''
        \<and> WorkflowId (WorkflowExecution d) = ''wf'' \<and> RunId (WorkflowExecution d) = ''run''"
    by (simp_all add: empty_trace_def)
  from len obtain d1 d2 where ds: "deliveries w' = [d1, d2]"
    by (cases "deliveries w'"; cases "tl (deliveries w')") auto
  from b ds have "map NamespaceId (deliveries w') = [''ns-id'', ''ns-id'']"
    and "map WorkflowExecution (deliveries w')
       = [\<lparr>WorkflowId = ''wf'', RunId = ''run''\<rparr>, \<lparr>WorkflowId = ''wf'', RunId = ''run''\<rparr>]"
    by simp_all
  with a run show ?thesis by simp
qed

subsection \<open>A namespace that does not resolve\<close>

text \<open>
  Claim C6, as amended. If the namespace ID does not resolve, the page fetch fails at once
  with the error of the directory itself, not wrapped, and without a call of the admin
  client; the delivery function is never invoked; \<^verbatim>\<open>SendSingleWorkflowHistory\<close> returns
  that same error; and the error is logged twice: by \<^verbatim>\<open>getHistory\<close>, tagged with the
  run ID, and by the entry point, tagged with the namespace ID, workflow ID and run ID.
\<close>

theorem C6_namespace_failure:
  assumes "namespaceCache n (nsLookups w) nid = Inl err"
  shows "getHistory n nid wid rid s sv e ev tok ps w
           = (Inl err,
              w\<lparr>nsLookups := nsLookups w @ [nid],
                 logs := logs w @ [\<lparr>msg = ''error getting namespace'',
                                     tags = [WorkflowRunID rid, TagError err]\<rparr>]\<rparr>)
       \<and> SendSingleWorkflowHistory n nid wid rid s sv e ev w
           = Some (Some err,
                   w\<lparr>nsLookups := nsLookups w @ [nid],
                      logs := logs w
                         @ [\<lparr>msg = ''error getting namespace'',
                              tags = [WorkflowRunID rid, TagError err]\<rparr>,
                            \<lparr>msg = ''failed to get history events'',
                              tags = [WorkflowNamespaceID nid, WorkflowID wid,
                                      WorkflowRunID rid, TagError err]\<rparr>]\<rparr>)"
proof -
  let ?F = "getPaginationFn n nid wid rid s sv e ev"
  have 1: "getHistory n nid wid rid s sv e ev tok ps w
           = (Inl err,
              w\<lparr>nsLookups := nsLookups w @ [nid],
                 logs := logs w @ [\<lparr>msg = ''error getting namespace'',
                                     tags = [WorkflowRunID rid, TagError err]\<rparr>]\<rparr>)"
    using assms by (simp add: getHistory_def)
  have F: "?F (pageToken (NewPagingIterator :: historyBatch PagingIterator)) w
      = (Inl err,
         w\<lparr>nsLookups := nsLookups w @ [nid],
            logs := logs w @ [\<lparr>msg = ''error getting namespace'',
                                tags = [WorkflowRunID rid, TagError err]\<rparr>]\<rparr>)"
    by (rule fetch_ns_err[OF assms])
  have 2: "SendSingleWorkflowHistory n nid wid rid s sv e ev w
           = Some (Some err,
                   w\<lparr>nsLookups := nsLookups w @ [nid],
                      logs := logs w
                         @ [\<lparr>msg = ''error getting namespace'',
                              tags = [WorkflowRunID rid, TagError err]\<rparr>,
                            \<lparr>msg = ''failed to get history events'',
                              tags = [WorkflowNamespaceID nid, WorkflowID wid,
                                      WorkflowRunID rid, TagError err]\<rparr>]\<rparr>)"
    unfolding SendSingleWorkflowHistory_def
    using loop_fetch_err[where F="?F" and it="NewPagingIterator" and w=w,
        OF New_exhausted New_unfinished F, of n nid wid rid]
    by simp
  from 1 2 show ?thesis by blast
qed

theorem C6_namespace_failure_witness:
  "namespaceCache scenario_resender [] ''unknown'' = Inl (ServiceError ''namespace not found'')
   \<and> SendSingleWorkflowHistory scenario_resender ''unknown'' ''wf'' ''run'' 1 0 100 0 empty_trace
       = Some (Some (ServiceError ''namespace not found''),
           \<lparr>nsLookups = [''unknown''], adminCalls = [], deliveries = [],
            logs = [\<lparr>msg = ''error getting namespace'',
                     tags = [WorkflowRunID ''run'',
                             TagError (ServiceError ''namespace not found'')]\<rparr>,
                    \<lparr>msg = ''failed to get history events'',
                     tags = [WorkflowNamespaceID ''unknown'', WorkflowID ''wf'',
                             WorkflowRunID ''run'',
                             TagError (ServiceError ''namespace not found'')]\<rparr>]\<rparr>)"
proof -
  have h: "namespaceCache scenario_resender (nsLookups empty_trace) ''unknown''
      = Inl (ServiceError ''namespace not found'')"
    by (simp add: scenario_defs empty_trace_def)
  from C6_namespace_failure[OF h, of "''wf''" "''run''" 1 0 100 0 "[]" 100] h show ?thesis
    by (simp add: empty_trace_def)
qed

text \<open>
  Claim C6 as it is stated fails: the error that the fetch returns is the error of the
  directory, and the log holds two entries for it, not one.
\<close>

theorem C6_counterexample:
  "namespaceCache scenario_resender [] ''unknown'' = Inl (ServiceError ''namespace not found'')
   \<and> fst (getHistory scenario_resender ''unknown'' ''wf'' ''run'' 1 0 100 0 [] 100 empty_trace)
       = Inl (ServiceError ''namespace not found'')
   \<and> fst (the (SendSingleWorkflowHistory scenario_resender ''unknown'' ''wf'' ''run''
                 1 0 100 0 empty_trace))
       = Some (ServiceError ''namespace not found'')
   \<and> logs (snd (the (SendSingleWorkflowHistory scenario_resender ''unknown'' ''wf'' ''run''
                 1 0 100 0 empty_trace)))
       = [\<lparr>msg = ''error getting namespace'',
           tags = [WorkflowRunID ''run'', TagError (ServiceError ''namespace not found'')]\<rparr>,
          \<lparr>msg = ''failed to get history events'',
           tags = [WorkflowNamespaceID ''unknown'', WorkflowID ''wf'', WorkflowRunID ''run'',
                   TagError (ServiceError ''namespace not found'')]\<rparr>]
   \<and> length (logs (snd (the (SendSingleWorkflowHistory scenario_resender ''unknown'' ''wf''
                 ''run'' 1 0 100 0 empty_trace)))) = 2"
  by (simp add: run_defs scenario_defs)

subsection \<open>The continuation token\<close>

text \<open>
  Claim C7. The continuation token is threaded unchanged. Where the namespace resolves,
  \<^verbatim>\<open>getHistory\<close> and the pagination function make one call of the admin client, whose
  request carries the token they received as its \<^verbatim>\<open>NextPageToken\<close>; and the pagination
  function returns the \<^verbatim>\<open>NextPageToken\<close> of the response as its next token, whatever
  the token is.
\<close>

theorem C7_token_threaded:
  assumes "namespaceCache n (nsLookups w) nid = Inr nm"
  shows "adminCalls (snd (getHistory n nid wid rid s sv e ev tok ps w))
           = adminCalls w @ [\<lparr>Namespace = nm, Execution = \<lparr>WorkflowId = wid, RunId = rid\<rparr>,
                StartEventId = s, StartEventVersion = sv, EndEventId = e, EndEventVersion = ev,
                MaximumPageSize = ps, NextPageToken = tok\<rparr>]
       \<and> adminCalls (snd (getPaginationFn n nid wid rid s sv e ev tok w))
           = adminCalls w @ [history_request n nm wid rid s sv e ev tok]
       \<and> NextPageToken (history_request n nm wid rid s sv e ev tok) = tok
       \<and> (case adminClient n (adminCalls w) (history_request n nm wid rid s sv e ev tok) of
             Inl err \<Rightarrow> fst (getPaginationFn n nid wid rid s sv e ev tok w) = Inl err
           | Inr p \<Rightarrow> fst (getPaginationFn n nid wid rid s sv e ev tok w)
                        = Inr (page_items p, Resp_NextPageToken p))"
  using assms
  by (auto simp: getPaginationFn_def getHistory_def history_request_def Let_def
      paginateItems_map page_items_def split: sum.splits)

theorem C7_token_threaded_witness:
  "namespaceCache scenario_resender [] ''ns-id'' = Inr ''ns''
   \<and> adminCalls (snd (getPaginationFn scenario_resender ''ns-id'' ''wf'' ''run'' 1 0 100 0
          ''T1'' empty_trace)) = [scenario_request ''T1'']
   \<and> NextPageToken (scenario_request ''T1'') = ''T1''
   \<and> fst (getPaginationFn scenario_resender ''ns-id'' ''wf'' ''run'' 1 0 100 0 [] empty_trace)
       = Inr (page_items scenario_pageA, ''T1'')"
proof -
  have h: "namespaceCache scenario_resender (nsLookups empty_trace) ''ns-id'' = Inr ''ns''"
    by (simp add: scenario_defs)
  from C7_token_threaded[OF h, where wid="''wf''" and rid="''run''" and s=1 and sv=0
      and e=100 and ev=0 and tok="''T1''" and ps=100]
    C7_token_threaded[OF h, where wid="''wf''" and rid="''run''" and s=1 and sv=0
      and e=100 and ev=0 and tok="[]" and ps=100] h
  show ?thesis
    by (simp add: empty_trace_def scenario_resender_def scenario_request_def
        history_request_def scenario_pageA_def)
qed

end
